theory Spec2Isabelle
  imports Complex_Main
begin

section \<open>Conventions of the embedding\<close>

text \<open>
  The Go packages \<^verbatim>\<open>volume\<close>, \<^verbatim>\<open>layers\<close> and \<^verbatim>\<open>reticulum\<close> are embedded as follows.
  \<^item> A \<^verbatim>\<open>float64\<close> is a real number: rounding, overflow to infinity and NaN are not
    modelled. A Go \<^verbatim>\<open>int\<close> has 64 bits: it is carried as an integer, and the
    result of every \<^verbatim>\<open>int\<close> addition, subtraction, negation and multiplication is
    wrapped to the signed 64-bit range by \<open>int64\<close>.
  \<^item> A \<^verbatim>\<open>*Volume\<close> is an address into a store of volumes, \<open>None\<close> being \<^verbatim>\<open>nil\<close>;
    every function that allocates or mutates takes the store and returns the new one.
  \<^item> A panic (explicit, or raised by the runtime on a bad index, a nil dereference, a
    negative slice length or an integer division by zero) is the left summand of
    the result; the state is then lost, as it is for a caller that does not recover.
  \<^item> A \<^verbatim>\<open>for i := 0; i < n; i++\<close> loop is \<open>for_each [0..n - 1]\<close> over the loop's
    state.
  \<^item> The process-wide random source is a fixed sequence of draws with a cursor in
    the store; nothing is assumed about the values drawn.
\<close>

datatype panic =
    IndexOutOfRange
  | NilDereference
  | MakeSliceLen
  | DivideByZero
  | Panic string

definition int64 :: "int \<Rightarrow> int" where
  "int64 i = (i + 2 ^ 63) mod 2 ^ 64 - 2 ^ 63"

fun for_each :: "'i list \<Rightarrow> ('i \<Rightarrow> 's \<Rightarrow> panic + 's) \<Rightarrow> 's \<Rightarrow> panic + 's" where
  "for_each [] body s = Inr s"
| "for_each (i # rest) body s =
     (case body i s of Inl e \<Rightarrow> Inl e | Inr s' \<Rightarrow> for_each rest body s')"

definition index_get :: "'a list \<Rightarrow> int \<Rightarrow> panic + 'a" where
  "index_get xs i =
     (if 0 \<le> i \<and> i < int (length xs) then Inr (xs ! nat i) else Inl IndexOutOfRange)"

definition index_set :: "'a list \<Rightarrow> int \<Rightarrow> 'a \<Rightarrow> panic + 'a list" where
  "index_set xs i v =
     (if 0 \<le> i \<and> i < int (length xs) then Inr (xs[nat i := v]) else Inl IndexOutOfRange)"

definition make_slice :: "int \<Rightarrow> 'a \<Rightarrow> panic + 'a list" where
  "make_slice n v = (if n < 0 then Inl MakeSliceLen else Inr (replicate (nat n) v))"

section \<open>volume/vol.go\<close>

record Dimensions =
  X :: int
  Y :: int
  Z :: int

definition NewDimensions :: "int \<Rightarrow> int \<Rightarrow> int \<Rightarrow> Dimensions" where
  "NewDimensions x y z = \<lparr>X = x, Y = y, Z = z\<rparr>"

definition Size :: "Dimensions \<Rightarrow> int" where
  "Size d = int64 (X d * Y d * Z d)"

record Volume =
  dimv :: Dimensions
  w :: "real list"
  dw :: "real list"

record VOptions =
  Zero :: bool
  HasInitialValue :: bool
  InitialValue :: real
  OptWeights :: "real list option"

definition WithInitialValue :: "real \<Rightarrow> VOptions \<Rightarrow> VOptions" where
  "WithInitialValue v opts = opts\<lparr>HasInitialValue := True, InitialValue := v\<rparr>"

definition WithZeros :: "VOptions \<Rightarrow> VOptions" where
  "WithZeros opts = opts\<lparr>HasInitialValue := True, Zero := True\<rparr>"

definition WithWeights :: "real list \<Rightarrow> VOptions \<Rightarrow> VOptions" where
  "WithWeights ws opts = opts\<lparr>OptWeights := Some ws\<rparr>"

record world =
  vols :: "nat \<Rightarrow> Volume"
  top :: nat
  rnd :: "nat \<Rightarrow> real"
  rpos :: nat

definition alloc :: "world \<Rightarrow> Volume \<Rightarrow> world \<times> nat option" where
  "alloc h v = (h\<lparr>vols := (vols h)(top h := v), top := Suc (top h)\<rparr>, Some (top h))"

definition vol_read :: "world \<Rightarrow> nat option \<Rightarrow> (Volume \<Rightarrow> panic + 'a) \<Rightarrow> panic + 'a" where
  "vol_read h p f = (case p of None \<Rightarrow> Inl NilDereference | Some r \<Rightarrow> f (vols h r))"

definition vol_update :: "world \<Rightarrow> nat option \<Rightarrow> (Volume \<Rightarrow> panic + Volume) \<Rightarrow> panic + world" where
  "vol_update h p f =
     (case p of
        None \<Rightarrow> Inl NilDereference
      | Some r \<Rightarrow>
          (case f (vols h r) of
             Inl e \<Rightarrow> Inl e
           | Inr v \<Rightarrow> Inr (h\<lparr>vols := (vols h)(r := v)\<rparr>)))"

text \<open>The default initialisation draws one sample per element, scaled by
  \<open>sqrt (1 / n)\<close>.\<close>

definition gaussian_fill :: "world \<Rightarrow> int \<Rightarrow> real list \<times> world" where
  "gaussian_fill h n =
     (map (\<lambda>i. rnd h (rpos h + i) * sqrt (1 / real_of_int n)) [0..<nat n],
      h\<lparr>rpos := rpos h + nat n\<rparr>)"

definition NewVolume ::
  "world \<Rightarrow> Dimensions \<Rightarrow> (VOptions \<Rightarrow> VOptions) list \<Rightarrow> panic + (world \<times> nat option)" where
  "NewVolume h d optFuncs =
     (let n = Size d in
      case make_slice n (0::real) of Inl e \<Rightarrow> Inl e | Inr zeros \<Rightarrow>
      let opts = fold (\<lambda>optFn acc. optFn acc) optFuncs
                   \<lparr>Zero = False, HasInitialValue = False, InitialValue = 0, OptWeights = None\<rparr>
      in
        if HasInitialValue opts then
          (if \<not> Zero opts
           then Inr (alloc h \<lparr>dimv = d, w = replicate (nat n) (InitialValue opts), dw = zeros\<rparr>)
           else Inr (alloc h \<lparr>dimv = d, w = zeros, dw = zeros\<rparr>))
        else
          (case OptWeights opts of
             Some ws \<Rightarrow>
               if int (length ws) \<noteq> Z d
               then Inl (Panic ''Invalid input weights: depth inconsistencies'')
               else if X d \<noteq> 1
               then Inl (Panic ''Invalid volume dimensions: X must equal 1 when weights are given'')
               else if Y d \<noteq> 1
               then Inl (Panic ''Invalid volume dimensions: Y must equal 1 when weights are given'')
               else Inr (alloc h \<lparr>dimv = d, w = ws, dw = zeros\<rparr>)
           | None \<Rightarrow>
               (case gaussian_fill h n of
                  (ws, h') \<Rightarrow> Inr (alloc h' \<lparr>dimv = d, w = ws, dw = zeros\<rparr>))))"

definition Volume_Size :: "Volume \<Rightarrow> int" where
  "Volume_Size v = Size (dimv v)"

definition Volume_getIndex :: "Volume \<Rightarrow> int \<Rightarrow> int \<Rightarrow> int \<Rightarrow> int" where
  "Volume_getIndex v x y d = int64 (((X (dimv v) * y) + x) * Z (dimv v) + d)"

definition Volume_GetByIndex :: "Volume \<Rightarrow> int \<Rightarrow> panic + real" where
  "Volume_GetByIndex v i = index_get (w v) i"

definition Volume_SetByIndex :: "Volume \<Rightarrow> int \<Rightarrow> real \<Rightarrow> panic + Volume" where
  "Volume_SetByIndex v i val =
     (case index_set (w v) i val of Inl e \<Rightarrow> Inl e | Inr ws \<Rightarrow> Inr (v\<lparr>w := ws\<rparr>))"

definition Volume_Get :: "Volume \<Rightarrow> int \<Rightarrow> int \<Rightarrow> int \<Rightarrow> panic + real" where
  "Volume_Get v x y d = index_get (w v) (Volume_getIndex v x y d)"

definition Volume_Set :: "Volume \<Rightarrow> int \<Rightarrow> int \<Rightarrow> int \<Rightarrow> real \<Rightarrow> panic + Volume" where
  "Volume_Set v x y d val = Volume_SetByIndex v (Volume_getIndex v x y d) val"

definition Volume_MultByIndex :: "Volume \<Rightarrow> int \<Rightarrow> real \<Rightarrow> panic + Volume" where
  "Volume_MultByIndex v i val =
     (case index_get (w v) i of
        Inl e \<Rightarrow> Inl e
      | Inr old \<Rightarrow> Volume_SetByIndex v i (old * val))"

definition Volume_GetGradByIndex :: "Volume \<Rightarrow> int \<Rightarrow> panic + real" where
  "Volume_GetGradByIndex v i = index_get (dw v) i"

definition Volume_SetGradByIndex :: "Volume \<Rightarrow> int \<Rightarrow> real \<Rightarrow> panic + Volume" where
  "Volume_SetGradByIndex v i val =
     (case index_set (dw v) i val of Inl e \<Rightarrow> Inl e | Inr gs \<Rightarrow> Inr (v\<lparr>dw := gs\<rparr>))"

definition Volume_AddGradByIndex :: "Volume \<Rightarrow> int \<Rightarrow> real \<Rightarrow> panic + Volume" where
  "Volume_AddGradByIndex v i val =
     (case index_get (dw v) i of
        Inl e \<Rightarrow> Inl e
      | Inr old \<Rightarrow> Volume_SetGradByIndex v i (old + val))"

definition Volume_GetGrad :: "Volume \<Rightarrow> int \<Rightarrow> int \<Rightarrow> int \<Rightarrow> panic + real" where
  "Volume_GetGrad v x y d = index_get (dw v) (Volume_getIndex v x y d)"

definition Volume_SetGrad :: "Volume \<Rightarrow> int \<Rightarrow> int \<Rightarrow> int \<Rightarrow> real \<Rightarrow> panic + Volume" where
  "Volume_SetGrad v x y d val = Volume_SetGradByIndex v (Volume_getIndex v x y d) val"

definition Volume_AddGrad :: "Volume \<Rightarrow> int \<Rightarrow> int \<Rightarrow> int \<Rightarrow> real \<Rightarrow> panic + Volume" where
  "Volume_AddGrad v x y d val = Volume_AddGradByIndex v (Volume_getIndex v x y d) val"

definition Volume_ZeroGrad :: "Volume \<Rightarrow> panic + Volume" where
  "Volume_ZeroGrad v = for_each [0..Volume_Size v - 1] (\<lambda>i u. Volume_SetGradByIndex u i 0) v"

text \<open>\<^verbatim>\<open>copy(vol.w, v.w)\<close> copies as many elements as the shorter slice has.\<close>

definition copy_slice :: "'a list \<Rightarrow> 'a list \<Rightarrow> 'a list" where
  "copy_slice dst src = take (length dst) src @ drop (length src) dst"

definition Volume_Clone :: "world \<Rightarrow> nat option \<Rightarrow> panic + (world \<times> nat option)" where
  "Volume_Clone h p =
     (case p of
        None \<Rightarrow> Inl NilDereference
      | Some r \<Rightarrow>
          (case NewVolume h (dimv (vols h r)) [WithZeros] of
             Inl e \<Rightarrow> Inl e
           | Inr (h', q) \<Rightarrow>
               (case vol_update h' q (\<lambda>u. Inr (u\<lparr>w := copy_slice (w u) (w (vols h' r))\<rparr>)) of
                  Inl e \<Rightarrow> Inl e
                | Inr h'' \<Rightarrow> Inr (h'', q))))"

definition Volume_CloneAndZero :: "world \<Rightarrow> nat option \<Rightarrow> panic + (world \<times> nat option)" where
  "Volume_CloneAndZero h p =
     (case p of
        None \<Rightarrow> Inl NilDereference
      | Some r \<Rightarrow> NewVolume h (dimv (vols h r)) [WithZeros])"

section \<open>layers/layers.go: layer types, configurations and definitions\<close>

type_synonym LayerType = string

definition FullyConnected :: LayerType where "FullyConnected = ''fc''"
definition LocalResponseNorm :: LayerType where "LocalResponseNorm = ''lrn''"
definition Dropout :: LayerType where "Dropout = ''dropout''"
definition Input :: LayerType where "Input = ''input''"
definition SoftMax :: LayerType where "SoftMax = ''softmax''"
definition Regression :: LayerType where "Regression = ''regression''"
definition Conv :: LayerType where "Conv = ''conv''"
definition Pool :: LayerType where "Pool = ''pool''"
definition ReLU :: LayerType where "ReLU = ''relu''"
definition Sigmoid :: LayerType where "Sigmoid = ''sigmoid''"
definition Tanh :: LayerType where "Tanh = ''tanh''"
definition Maxout :: LayerType where "Maxout = ''maxout''"
definition SVM :: LayerType where "SVM = ''svm''"

lemmas LayerType_defs =
  FullyConnected_def LocalResponseNorm_def Dropout_def Input_def SoftMax_def Regression_def
  Conv_def Pool_def ReLU_def Sigmoid_def Tanh_def Maxout_def SVM_def

record fullyConnLayerConfig =
  fc_Neurons :: int
  fc_L1DecayMult :: real
  fc_L2DecayMult :: real
  fc_PreferredBias :: real

record convLayerConfig =
  cv_FilterCount :: int
  cv_Sx :: int
  cv_Sy :: int
  cv_Stride :: int
  cv_Padding :: int
  cv_L1DecayMult :: real
  cv_L2DecayMult :: real
  cv_PreferredBias :: real

record poolLayerConfig =
  pl_Sx :: int
  pl_Sy :: int
  pl_Stride :: int
  pl_Padding :: int

record DropoutLayerConfig =
  DropoutProbability :: real

record MaxoutLayerConfig =
  GroupSize :: int

record softMaxLayerConfig =
  sm_Classes :: int

record svmLayerConfig =
  svm_Classes :: int

record regressionLayerConfig =
  rg_Neurons :: int

text \<open>\<^verbatim>\<open>LayerConfig\<close> is \<^verbatim>\<open>interface{}\<close>: the dynamic types the package stores in it are
  pointers to the configuration structs and, in \<^verbatim>\<open>ActivateLayers\<close>, a
  \<^verbatim>\<open>MaxoutLayerConfig\<close> by value. The pointed-to struct is carried by value.\<close>

datatype LayerConfig =
    NilConfig
  | FullyConnPtr fullyConnLayerConfig
  | ConvPtr convLayerConfig
  | PoolPtr poolLayerConfig
  | DropoutPtr DropoutLayerConfig
  | MaxoutPtr MaxoutLayerConfig
  | MaxoutVal MaxoutLayerConfig
  | SoftMaxPtr softMaxLayerConfig
  | SVMPtr svmLayerConfig
  | RegressionPtr regressionLayerConfig

record LayerDef =
  def_Type :: LayerType
  def_Input :: Dimensions
  def_Output :: Dimensions
  def_Activation :: LayerType
  def_Dropout :: "DropoutLayerConfig option"
  def_Maxout :: "MaxoutLayerConfig option"
  def_LayerConfig :: LayerConfig

record LayerResponse =
  lr_vol :: nat
  L1DecayMul :: real
  L2DecayMul :: real

text \<open>A \<^verbatim>\<open>LayerResponse\<close> holds the \<^verbatim>\<open>Weights\<close> and \<^verbatim>\<open>Gradients\<close> slices of one
  parameter volume; both alias that volume's arrays, so the response is the volume's
  address (\<open>lr_vol\<close>) with the two decay multipliers.\<close>

section \<open>layers/input.go\<close>

record inputLayer =
  in_output :: Dimensions
  in_inVol :: "nat option"
  in_outVol :: "nat option"

definition NewInputLayer :: "LayerDef \<Rightarrow> panic + inputLayer" where
  "NewInputLayer def =
     (if def_Type def \<noteq> Input then Inl (Panic ''Invalid layer type: != input'')
      else if Z (def_Output def) = 0
      then Inl (Panic ''Output depth cannot be 0 for input layer'')
      else Inr \<lparr>in_output = def_Output def, in_inVol = None, in_outVol = None\<rparr>)"

definition inputLayer_Forward ::
  "inputLayer \<Rightarrow> world \<Rightarrow> nat option \<Rightarrow> bool \<Rightarrow> panic + (inputLayer \<times> world \<times> nat option)" where
  "inputLayer_Forward l h vol training = Inr (l\<lparr>in_inVol := vol, in_outVol := vol\<rparr>, h, vol)"

definition inputLayer_Backward :: "inputLayer \<Rightarrow> world \<Rightarrow> panic + world" where
  "inputLayer_Backward l h = Inl (Panic ''Unsupported operation'')"

section \<open>The fully connected layer\<close>

record fullyConnLayer =
  fcl_conf :: fullyConnLayerConfig
  fcl_input :: Dimensions
  fcl_output :: Dimensions
  fcl_inVol :: "nat option"
  fcl_outVol :: "nat option"
  fcl_filters :: "nat option list"
  fcl_biases :: "nat option"

definition NewFullyConnectedLayerConfig :: "int \<Rightarrow> panic + LayerConfig" where
  "NewFullyConnectedLayerConfig neurons =
     (if neurons \<le> 0 then Inl (Panic ''Neuron count must be greater than 0'')
      else Inr (FullyConnPtr \<lparr>fc_Neurons = neurons, fc_L1DecayMult = 0, fc_L2DecayMult = 1,
                              fc_PreferredBias = 0\<rparr>))"

text \<open>The loop that allocates one filter volume per output slice, shared by the fully
  connected and the convolution constructors.\<close>

definition new_filters ::
  "world \<Rightarrow> int \<Rightarrow> Dimensions \<Rightarrow> panic + (nat option list \<times> world)" where
  "new_filters h outDepth d =
     for_each [0..outDepth - 1]
       (\<lambda>i (fs, h'). case NewVolume h' d [] of
                        Inl e \<Rightarrow> Inl e
                      | Inr (h'', f) \<Rightarrow> Inr (fs @ [f], h''))
       ([], h)"

definition NewFullyConnectedLayer :: "world \<Rightarrow> LayerDef \<Rightarrow> panic + (fullyConnLayer \<times> world)" where
  "NewFullyConnectedLayer h def =
     (if def_Type def \<noteq> FullyConnected then Inl (Panic ''Invalid layer type: != fc'')
      else if Z (def_Output def) = 0
      then Inl (Panic ''Output depth cannot be 0 for a fully connected layer'')
      else
        (case def_LayerConfig def of
           NilConfig \<Rightarrow> Inl (Panic ''Config cannot be nil for a fully connected layer'')
         | FullyConnPtr conf \<Rightarrow>
             (let outDepth = fc_Neurons conf;
                  outDim = \<lparr>X = 1, Y = 1, Z = outDepth\<rparr>;
                  bias = fc_PreferredBias conf
              in
                case new_filters h outDepth \<lparr>X = 1, Y = 1, Z = Size (def_Input def)\<rparr> of
                  Inl e \<Rightarrow> Inl e
                | Inr (filters, h1) \<Rightarrow>
                case NewVolume h1 \<lparr>X = 1, Y = 1, Z = outDepth\<rparr> [WithInitialValue bias] of
                  Inl e \<Rightarrow> Inl e
                | Inr (h2, biases) \<Rightarrow>
                    Inr (\<lparr>fcl_conf = conf, fcl_input = def_Input def, fcl_output = outDim,
                          fcl_inVol = None, fcl_outVol = None, fcl_filters = filters,
                          fcl_biases = biases\<rparr>, h2))
         | _ \<Rightarrow> Inl (Panic ''Invalid LayerConfig for fullyConnLayer'')))"

definition fullyConnLayer_Forward ::
  "fullyConnLayer \<Rightarrow> world \<Rightarrow> nat option \<Rightarrow> bool \<Rightarrow>
     panic + (fullyConnLayer \<times> world \<times> nat option)" where
  "fullyConnLayer_Forward l0 h0 vol training =
     (let l = l0\<lparr>fcl_inVol := vol\<rparr> in
      case NewVolume h0 (fcl_output l) [WithZeros] of
        Inl e \<Rightarrow> Inl e
      | Inr (h1, A) \<Rightarrow>
      case vol_read h1 vol (\<lambda>v. Inr (w v)) of
        Inl e \<Rightarrow> Inl e
      | Inr ws \<Rightarrow>
      case for_each [0..Size (fcl_output l) - 1]
             (\<lambda>i h.
                case index_get (fcl_filters l) i of
                  Inl e \<Rightarrow> Inl e
                | Inr fi \<Rightarrow>
                case vol_read h fi (\<lambda>v. Inr (w v)) of
                  Inl e \<Rightarrow> Inl e
                | Inr wi \<Rightarrow>
                case for_each [0..Size (fcl_input l) - 1]
                       (\<lambda>d a. case index_get ws d of
                                 Inl e \<Rightarrow> Inl e
                               | Inr x \<Rightarrow>
                                   (case index_get wi d of
                                      Inl e \<Rightarrow> Inl e
                                    | Inr y \<Rightarrow> Inr (a + x * y)))
                       (0::real) of
                  Inl e \<Rightarrow> Inl e
                | Inr a \<Rightarrow>
                case vol_read h (fcl_biases l) (\<lambda>v. Volume_GetByIndex v i) of
                  Inl e \<Rightarrow> Inl e
                | Inr b \<Rightarrow> vol_update h A (\<lambda>v. Volume_SetByIndex v i (a + b)))
             h1 of
        Inl e \<Rightarrow> Inl e
      | Inr h2 \<Rightarrow> Inr (l\<lparr>fcl_outVol := A\<rparr>, h2, A))"

definition fullyConnLayer_Backward :: "fullyConnLayer \<Rightarrow> world \<Rightarrow> panic + world" where
  "fullyConnLayer_Backward l h0 =
     (case vol_update h0 (fcl_inVol l) Volume_ZeroGrad of
        Inl e \<Rightarrow> Inl e
      | Inr h1 \<Rightarrow>
          let numInputs = Size (fcl_input l) in
          for_each [0..Z (fcl_output l) - 1]
            (\<lambda>i h.
               case index_get (fcl_filters l) i of
                 Inl e \<Rightarrow> Inl e
               | Inr tfi \<Rightarrow>
               case vol_read h (fcl_outVol l) (\<lambda>v. Volume_GetGradByIndex v i) of
                 Inl e \<Rightarrow> Inl e
               | Inr chainGrad \<Rightarrow>
               case for_each [0..numInputs - 1]
                      (\<lambda>d h.
                         case vol_read h tfi (\<lambda>v. Volume_GetByIndex v d) of
                           Inl e \<Rightarrow> Inl e
                         | Inr fv \<Rightarrow>
                         case vol_update h (fcl_inVol l)
                                (\<lambda>v. Volume_AddGradByIndex v d (fv * chainGrad)) of
                           Inl e \<Rightarrow> Inl e
                         | Inr h' \<Rightarrow>
                         case vol_read h' (fcl_inVol l) (\<lambda>v. Volume_GetByIndex v d) of
                           Inl e \<Rightarrow> Inl e
                         | Inr iv \<Rightarrow>
                             vol_update h' tfi (\<lambda>v. Volume_AddGradByIndex v d (iv * chainGrad)))
                      h of
                 Inl e \<Rightarrow> Inl e
               | Inr h' \<Rightarrow>
                   vol_update h' (fcl_biases l) (\<lambda>v. Volume_AddGradByIndex v i chainGrad))
            h1)"

text \<open>\<^verbatim>\<open>GetResponse\<close> of the fully connected and of the convolution layer: one entry
  per filter below the output depth, then the biases with both multipliers zero.
  Taking \<^verbatim>\<open>Weights()\<close> of a nil filter panics.\<close>

definition filter_responses ::
  "int \<Rightarrow> nat option list \<Rightarrow> nat option \<Rightarrow> real \<Rightarrow> real \<Rightarrow> panic + LayerResponse list" where
  "filter_responses outZ filters biases l1 l2 =
     (case for_each [0..outZ - 1]
             (\<lambda>i resp.
                case index_get filters i of
                  Inl e \<Rightarrow> Inl e
                | Inr None \<Rightarrow> Inl NilDereference
                | Inr (Some r) \<Rightarrow>
                    Inr (resp @ [\<lparr>lr_vol = r, L1DecayMul = l1, L2DecayMul = l2\<rparr>]))
             [] of
        Inl e \<Rightarrow> Inl e
      | Inr resp \<Rightarrow>
          (case biases of
             None \<Rightarrow> Inl NilDereference
           | Some b \<Rightarrow> Inr (resp @ [\<lparr>lr_vol = b, L1DecayMul = 0, L2DecayMul = 0\<rparr>])))"

definition fullyConnLayer_GetResponse :: "fullyConnLayer \<Rightarrow> panic + LayerResponse list" where
  "fullyConnLayer_GetResponse l =
     filter_responses (Z (fcl_output l)) (fcl_filters l) (fcl_biases l)
       (fc_L1DecayMult (fcl_conf l)) (fc_L2DecayMult (fcl_conf l))"

section \<open>The dropout layer\<close>

record dropoutLayer =
  do_config :: DropoutLayerConfig
  do_input :: Dimensions
  do_output :: Dimensions
  do_dropped :: "bool list"
  do_inVol :: "nat option"
  do_outVol :: "nat option"

definition NewDropoutLayer :: "LayerDef \<Rightarrow> panic + dropoutLayer" where
  "NewDropoutLayer def =
     (if def_Type def \<noteq> Dropout then Inl (Panic ''Invalid layer type: != input'')
      else
        (case def_LayerConfig def of
           DropoutPtr conf \<Rightarrow>
             (case make_slice (Size (def_Output def)) False of
                Inl e \<Rightarrow> Inl e
              | Inr dropped \<Rightarrow>
                  Inr \<lparr>do_config = conf, do_input = def_Input def, do_output = def_Output def,
                       do_dropped = dropped, do_inVol = None, do_outVol = None\<rparr>)
         | _ \<Rightarrow> Inl (Panic ''Invalid layer config: expected DropoutLayerConfig'')))"

definition rand_Float64 :: "world \<Rightarrow> real \<times> world" where
  "rand_Float64 h = (rnd h (rpos h), h\<lparr>rpos := Suc (rpos h)\<rparr>)"

definition dropoutLayer_Forward ::
  "dropoutLayer \<Rightarrow> world \<Rightarrow> nat option \<Rightarrow> bool \<Rightarrow>
     panic + (dropoutLayer \<times> world \<times> nat option)" where
  "dropoutLayer_Forward l0 h0 vol training =
     (let l = l0\<lparr>do_inVol := vol\<rparr> in
      case Volume_Clone h0 vol of
        Inl e \<Rightarrow> Inl e
      | Inr (h1, vol2) \<Rightarrow>
      case vol_read h1 vol (\<lambda>v. Inr (Volume_Size v)) of
        Inl e \<Rightarrow> Inl e
      | Inr n \<Rightarrow>
          if training then
            (case for_each [0..n - 1]
                    (\<lambda>i (dropped, h).
                       case rand_Float64 h of
                         (r, h') \<Rightarrow>
                           if r < DropoutProbability (do_config l) then
                             (case vol_update h' vol2 (\<lambda>v. Volume_SetByIndex v i 0) of
                                Inl e \<Rightarrow> Inl e
                              | Inr h'' \<Rightarrow>
                                  (case index_set dropped i True of
                                     Inl e \<Rightarrow> Inl e
                                   | Inr dropped' \<Rightarrow> Inr (dropped', h'')))
                           else
                             (case index_set dropped i False of
                                Inl e \<Rightarrow> Inl e
                              | Inr dropped' \<Rightarrow> Inr (dropped', h')))
                    (do_dropped l, h1) of
               Inl e \<Rightarrow> Inl e
             | Inr (dropped, h2) \<Rightarrow> Inr (l\<lparr>do_dropped := dropped, do_outVol := vol2\<rparr>, h2, vol2))
          else
            (case for_each [0..n - 1]
                    (\<lambda>i h. vol_update h vol2
                              (\<lambda>v. Volume_MultByIndex v i (DropoutProbability (do_config l))))
                    h1 of
               Inl e \<Rightarrow> Inl e
             | Inr h2 \<Rightarrow> Inr (l\<lparr>do_outVol := vol2\<rparr>, h2, vol2)))"

definition dropoutLayer_Backward :: "dropoutLayer \<Rightarrow> world \<Rightarrow> panic + world" where
  "dropoutLayer_Backward l h0 =
     (case vol_update h0 (do_inVol l) Volume_ZeroGrad of
        Inl e \<Rightarrow> Inl e
      | Inr h1 \<Rightarrow>
      case vol_read h1 (do_inVol l) (\<lambda>v. Inr (Volume_Size v)) of
        Inl e \<Rightarrow> Inl e
      | Inr n \<Rightarrow>
          for_each [0..n - 1]
            (\<lambda>i h.
               case index_get (do_dropped l) i of
                 Inl e \<Rightarrow> Inl e
               | Inr dropped \<Rightarrow>
                   if \<not> dropped then
                     (case vol_read h (do_outVol l) (\<lambda>v. Volume_GetGradByIndex v i) of
                        Inl e \<Rightarrow> Inl e
                      | Inr g \<Rightarrow> vol_update h (do_inVol l) (\<lambda>v. Volume_SetGradByIndex v i g))
                   else Inr h)
            h1)"

section \<open>The softmax layer\<close>

record softmaxLayer =
  sml_conf :: softMaxLayerConfig
  sml_inDim :: Dimensions
  sml_outDim :: Dimensions
  sml_inVol :: "nat option"
  sml_outVol :: "nat option"
  sml_es :: "real list"

definition NewSoftmaxLayer :: "LayerDef \<Rightarrow> panic + softmaxLayer" where
  "NewSoftmaxLayer def =
     (if def_Type def \<noteq> SoftMax then Inl (Panic ''invalid layer type: != softmax'')
      else
        (case def_LayerConfig def of
           NilConfig \<Rightarrow> Inl (Panic ''invalid layer config'')
         | SoftMaxPtr conf \<Rightarrow>
             (let n = Size (def_Input def) in
              Inr \<lparr>sml_conf = conf, sml_inDim = def_Input def,
                   sml_outDim = \<lparr>X = 1, Y = 1, Z = n\<rparr>, sml_inVol = None, sml_outVol = None,
                   sml_es = []\<rparr>)
         | _ \<Rightarrow> Inl (Panic ''invalid LayerConfig for softMaxLayerConfig'')))"

text \<open>The three loops of Forward over the slice \<open>as\<close> of input values: the maximum
  activation, the exponentials with their running sum, and the normalisation that
  also writes the output volume.\<close>

definition softmax_max :: "real list \<Rightarrow> int \<Rightarrow> panic + real" where
  "softmax_max as n =
     (case index_get as 0 of
        Inl e \<Rightarrow> Inl e
      | Inr a0 \<Rightarrow>
          for_each [0..n - 1]
            (\<lambda>i aMax. case index_get as i of
                         Inl e \<Rightarrow> Inl e
                       | Inr a \<Rightarrow> if a > aMax then Inr a else Inr aMax)
            a0)"

definition softmax_exps :: "real list \<Rightarrow> real \<Rightarrow> int \<Rightarrow> real list \<Rightarrow> panic + (real list \<times> real)" where
  "softmax_exps as aMax n es0 =
     for_each [0..n - 1]
       (\<lambda>i (es, esum).
          case index_get as i of
            Inl e \<Rightarrow> Inl e
          | Inr a \<Rightarrow>
              (let e = exp (a - aMax) in
               case index_set es i e of
                 Inl err \<Rightarrow> Inl err
               | Inr es' \<Rightarrow> Inr (es', esum + e)))
       (es0, 0)"

definition softmax_normalize ::
  "world \<Rightarrow> nat option \<Rightarrow> real list \<Rightarrow> real \<Rightarrow> int \<Rightarrow> panic + (real list \<times> world)" where
  "softmax_normalize h0 volA es0 esum n =
     for_each [0..n - 1]
       (\<lambda>i (es, h).
          case index_get es i of
            Inl e \<Rightarrow> Inl e
          | Inr ei \<Rightarrow>
              (case index_set es i (ei / esum) of
                 Inl e \<Rightarrow> Inl e
               | Inr es' \<Rightarrow>
                   (case vol_update h volA (\<lambda>v. Volume_SetByIndex v i (ei / esum)) of
                      Inl e \<Rightarrow> Inl e
                    | Inr h' \<Rightarrow> Inr (es', h'))))
       (es0, h0)"

definition softmaxLayer_Forward ::
  "softmaxLayer \<Rightarrow> world \<Rightarrow> nat option \<Rightarrow> bool \<Rightarrow>
     panic + (softmaxLayer \<times> world \<times> nat option)" where
  "softmaxLayer_Forward l0 h0 vol training =
     (let l = l0\<lparr>sml_inVol := vol\<rparr>; n = Z (sml_outDim l) in
      case NewVolume h0 (sml_outDim l) [WithZeros] of
        Inl e \<Rightarrow> Inl e
      | Inr (h1, volA) \<Rightarrow>
      case vol_read h1 vol (\<lambda>v. Inr (w v)) of
        Inl e \<Rightarrow> Inl e
      | Inr as \<Rightarrow>
      case softmax_max as n of
        Inl e \<Rightarrow> Inl e
      | Inr aMax \<Rightarrow>
      case make_slice n (0::real) of
        Inl e \<Rightarrow> Inl e
      | Inr es0 \<Rightarrow>
      case softmax_exps as aMax n es0 of
        Inl e \<Rightarrow> Inl e
      | Inr (es1, esum) \<Rightarrow>
      case softmax_normalize h1 volA es1 esum n of
        Inl e \<Rightarrow> Inl e
      | Inr (es, h2) \<Rightarrow> Inr (l\<lparr>sml_es := es, sml_outVol := volA\<rparr>, h2, volA))"

definition softmaxLayer_Loss :: "softmaxLayer \<Rightarrow> world \<Rightarrow> int \<Rightarrow> panic + (real \<times> world)" where
  "softmaxLayer_Loss l h0 index =
     (if index < 0 \<or> index \<ge> Size (sml_outDim l)
      then Inl (Panic ''Invalid dimension index'')
      else
        case vol_update h0 (sml_inVol l) Volume_ZeroGrad of
          Inl e \<Rightarrow> Inl e
        | Inr h1 \<Rightarrow>
        case for_each [0..Z (sml_outDim l) - 1]
               (\<lambda>i h.
                  let indicator = (if i = index then 1 else 0 :: real) in
                  case index_get (sml_es l) i of
                    Inl e \<Rightarrow> Inl e
                  | Inr p \<Rightarrow>
                      vol_update h (sml_inVol l)
                        (\<lambda>v. Volume_SetGradByIndex v i (- (indicator - p))))
               h1 of
          Inl e \<Rightarrow> Inl e
        | Inr h2 \<Rightarrow>
            (case index_get (sml_es l) index of
               Inl e \<Rightarrow> Inl e
             | Inr p \<Rightarrow> Inr (- ln p, h2)))"

definition softmaxLayer_Backward :: "softmaxLayer \<Rightarrow> world \<Rightarrow> panic + world" where
  "softmaxLayer_Backward l h = Inl (Panic ''Unsupported operation'')"

section \<open>layers/svm.go\<close>

record svmLayer =
  svl_conf :: svmLayerConfig
  svl_inDim :: Dimensions
  svl_outDim :: Dimensions
  svl_inVol :: "nat option"
  svl_outVol :: "nat option"

definition NewSVMLayer :: "LayerDef \<Rightarrow> panic + svmLayer" where
  "NewSVMLayer def =
     (if def_Type def \<noteq> SVM then Inl (Panic ''Invalid layer type: != svm'')
      else
        (case def_LayerConfig def of
           SVMPtr conf \<Rightarrow>
             (let n = Size (def_Input def) in
              Inr \<lparr>svl_conf = conf, svl_inDim = def_Input def,
                   svl_outDim = \<lparr>X = 1, Y = 1, Z = n\<rparr>, svl_inVol = None, svl_outVol = None\<rparr>)
         | _ \<Rightarrow> Inl (Panic ''invalid LayerConfig for svmLayerConfig'')))"

definition svmLayer_Forward ::
  "svmLayer \<Rightarrow> world \<Rightarrow> nat option \<Rightarrow> bool \<Rightarrow> panic + (svmLayer \<times> world \<times> nat option)" where
  "svmLayer_Forward l h vol training = Inr (l\<lparr>svl_inVol := vol, svl_outVol := vol\<rparr>, h, vol)"

definition svmLayer_Loss :: "svmLayer \<Rightarrow> world \<Rightarrow> int \<Rightarrow> panic + (real \<times> world)" where
  "svmLayer_Loss l h0 index =
     (if index < 0 \<or> index \<ge> Size (svl_outDim l)
      then Inl (Panic ''Invalid dimension index'')
      else
        case vol_update h0 (svl_inVol l) Volume_ZeroGrad of
          Inl e \<Rightarrow> Inl e
        | Inr h1 \<Rightarrow>
        case vol_read h1 (svl_inVol l) (\<lambda>v. Volume_GetByIndex v index) of
          Inl e \<Rightarrow> Inl e
        | Inr yScore \<Rightarrow>
        case vol_read h1 (svl_outVol l) (\<lambda>v. Inr (Volume_Size v)) of
          Inl e \<Rightarrow> Inl e
        | Inr n \<Rightarrow>
            for_each [0..n - 1]
              (\<lambda>i (loss, h).
                 if index = i then Inr (loss, h)
                 else
                   case vol_read h (svl_inVol l) (\<lambda>v. Volume_GetByIndex v i) of
                     Inl e \<Rightarrow> Inl e
                   | Inr s \<Rightarrow>
                       (let yDiff = - yScore + s + 1 in
                        if yDiff > 0 then
                          (case vol_update h (svl_inVol l) (\<lambda>v. Volume_AddGradByIndex v i 1) of
                             Inl e \<Rightarrow> Inl e
                           | Inr h' \<Rightarrow>
                               (case vol_update h' (svl_inVol l)
                                       (\<lambda>v. Volume_AddGradByIndex v index (- 1)) of
                                  Inl e \<Rightarrow> Inl e
                                | Inr h'' \<Rightarrow> Inr (loss + yDiff, h'')))
                        else Inr (loss, h)))
              (0, h1))"

definition svmLayer_Backward :: "svmLayer \<Rightarrow> world \<Rightarrow> panic + world" where
  "svmLayer_Backward l h = Inl (Panic ''Unsupported operation'')"

section \<open>layers/regression.go\<close>

record regressionLayer =
  rgl_conf :: regressionLayerConfig
  rgl_inDim :: Dimensions
  rgl_outDim :: Dimensions
  rgl_inVol :: "nat option"
  rgl_outVol :: "nat option"

definition NewRegressionLayer :: "LayerDef \<Rightarrow> panic + regressionLayer" where
  "NewRegressionLayer def =
     (if def_Type def \<noteq> Regression then Inl (Panic ''Invalid layer type: != regression'')
      else
        (case def_LayerConfig def of
           RegressionPtr conf \<Rightarrow>
             (let n = Size (def_Input def) in
              Inr \<lparr>rgl_conf = conf, rgl_inDim = def_Input def,
                   rgl_outDim = NewDimensions 1 1 n, rgl_inVol = None, rgl_outVol = None\<rparr>)
         | _ \<Rightarrow> Inl (Panic ''invalid LayerConfig for regressionLayerConfig'')))"

definition regressionLayer_Forward ::
  "regressionLayer \<Rightarrow> world \<Rightarrow> nat option \<Rightarrow> bool \<Rightarrow>
     panic + (regressionLayer \<times> world \<times> nat option)" where
  "regressionLayer_Forward l h vol training =
     Inr (l\<lparr>rgl_inVol := vol, rgl_outVol := vol\<rparr>, h, vol)"

definition regressionLayer_Backward :: "regressionLayer \<Rightarrow> world \<Rightarrow> panic + world" where
  "regressionLayer_Backward l h = Inl (Panic ''Unsupported operation'')"

section \<open>The activation layers: ReLU, sigmoid, tanh\<close>

record reluLayer =
  rl_output :: Dimensions
  rl_inVol :: "nat option"
  rl_outVol :: "nat option"

definition NewReluLayer :: "LayerDef \<Rightarrow> panic + reluLayer" where
  "NewReluLayer def =
     (if def_Type def \<noteq> ReLU then Inl (Panic ''Invalid layer type: != relu'')
      else if Z (def_Output def) = 0
      then Inl (Panic ''Output depth cannot be 0 for relu layer'')
      else Inr \<lparr>rl_output = def_Output def, rl_inVol = None, rl_outVol = None\<rparr>)"

definition reluLayer_Forward ::
  "reluLayer \<Rightarrow> world \<Rightarrow> nat option \<Rightarrow> bool \<Rightarrow> panic + (reluLayer \<times> world \<times> nat option)" where
  "reluLayer_Forward l0 h0 vol training =
     (let l = l0\<lparr>rl_inVol := vol\<rparr> in
      case Volume_Clone h0 vol of
        Inl e \<Rightarrow> Inl e
      | Inr (h1, v2) \<Rightarrow>
      case vol_read h1 vol (\<lambda>v. Inr (Volume_Size v)) of
        Inl e \<Rightarrow> Inl e
      | Inr n \<Rightarrow>
      case for_each [0..n - 1]
             (\<lambda>i h. case vol_read h v2 (\<lambda>v. Volume_GetByIndex v i) of
                       Inl e \<Rightarrow> Inl e
                     | Inr a \<Rightarrow>
                         if a < 0 then vol_update h v2 (\<lambda>v. Volume_SetByIndex v i 0)
                         else Inr h)
             h1 of
        Inl e \<Rightarrow> Inl e
      | Inr h2 \<Rightarrow> Inr (l\<lparr>rl_outVol := v2\<rparr>, h2, v2))"

definition reluLayer_Backward :: "reluLayer \<Rightarrow> world \<Rightarrow> panic + world" where
  "reluLayer_Backward l h0 =
     (case vol_read h0 (rl_inVol l) (\<lambda>v. Inr (Volume_Size v)) of
        Inl e \<Rightarrow> Inl e
      | Inr n \<Rightarrow>
      case vol_update h0 (rl_inVol l) Volume_ZeroGrad of
        Inl e \<Rightarrow> Inl e
      | Inr h1 \<Rightarrow>
          for_each [0..n - 1]
            (\<lambda>i h. case vol_read h (rl_outVol l) (\<lambda>v. Volume_GetByIndex v i) of
                      Inl e \<Rightarrow> Inl e
                    | Inr a \<Rightarrow>
                        if a \<le> 0 then vol_update h (rl_inVol l) (\<lambda>v. Volume_SetGradByIndex v i 0)
                        else
                          (case vol_read h (rl_outVol l) (\<lambda>v. Volume_GetGradByIndex v i) of
                             Inl e \<Rightarrow> Inl e
                           | Inr g \<Rightarrow>
                               vol_update h (rl_inVol l) (\<lambda>v. Volume_SetGradByIndex v i g)))
            h1)"

text \<open>Sigmoid and tanh differ only in the function applied on the way forward and in the
  derivative, written in terms of the output value, on the way back.\<close>

definition elementwise_Forward ::
  "(real \<Rightarrow> real) \<Rightarrow> world \<Rightarrow> nat option \<Rightarrow> panic + (world \<times> nat option)" where
  "elementwise_Forward f h0 vol =
     (case Volume_CloneAndZero h0 vol of
        Inl e \<Rightarrow> Inl e
      | Inr (h1, v2) \<Rightarrow>
      case vol_read h1 vol (\<lambda>v. Inr (Volume_Size v)) of
        Inl e \<Rightarrow> Inl e
      | Inr n \<Rightarrow>
      case for_each [0..n - 1]
             (\<lambda>i h. case vol_read h vol (\<lambda>v. Volume_GetByIndex v i) of
                       Inl e \<Rightarrow> Inl e
                     | Inr a \<Rightarrow> vol_update h v2 (\<lambda>v. Volume_SetByIndex v i (f a)))
             h1 of
        Inl e \<Rightarrow> Inl e
      | Inr h2 \<Rightarrow> Inr (h2, v2))"

definition elementwise_Backward ::
  "(real \<Rightarrow> real) \<Rightarrow> nat option \<Rightarrow> nat option \<Rightarrow> world \<Rightarrow> panic + world" where
  "elementwise_Backward deriv inVol outVol h0 =
     (case vol_read h0 inVol (\<lambda>v. Inr (Volume_Size v)) of
        Inl e \<Rightarrow> Inl e
      | Inr n \<Rightarrow>
      case vol_update h0 inVol Volume_ZeroGrad of
        Inl e \<Rightarrow> Inl e
      | Inr h1 \<Rightarrow>
          for_each [0..n - 1]
            (\<lambda>i h. case vol_read h outVol (\<lambda>v. Volume_GetByIndex v i) of
                      Inl e \<Rightarrow> Inl e
                    | Inr v2wi \<Rightarrow>
                        (case vol_read h outVol (\<lambda>v. Volume_GetGradByIndex v i) of
                           Inl e \<Rightarrow> Inl e
                         | Inr g \<Rightarrow>
                             vol_update h inVol (\<lambda>v. Volume_SetGradByIndex v i (deriv v2wi * g))))
            h1)"

record sigmoidLayer =
  sg_output :: Dimensions
  sg_inVol :: "nat option"
  sg_outVol :: "nat option"

definition NewSigmoidLayer :: "LayerDef \<Rightarrow> panic + sigmoidLayer" where
  "NewSigmoidLayer def =
     (if def_Type def \<noteq> Sigmoid then Inl (Panic ''Invalid layer type: != sigmoid'')
      else if Z (def_Output def) = 0
      then Inl (Panic ''Output depth cannot be 0 for sigmoid layer'')
      else Inr \<lparr>sg_output = def_Output def, sg_inVol = None, sg_outVol = None\<rparr>)"

definition sigmoidLayer_Forward ::
  "sigmoidLayer \<Rightarrow> world \<Rightarrow> nat option \<Rightarrow> bool \<Rightarrow>
     panic + (sigmoidLayer \<times> world \<times> nat option)" where
  "sigmoidLayer_Forward l h0 vol training =
     (case elementwise_Forward (\<lambda>a. 1 / (1 + exp (- a))) h0 vol of
        Inl e \<Rightarrow> Inl e
      | Inr (h1, v2) \<Rightarrow> Inr (l\<lparr>sg_inVol := vol, sg_outVol := v2\<rparr>, h1, v2))"

definition sigmoidLayer_Backward :: "sigmoidLayer \<Rightarrow> world \<Rightarrow> panic + world" where
  "sigmoidLayer_Backward l h =
     elementwise_Backward (\<lambda>v2wi. v2wi * (1 - v2wi)) (sg_inVol l) (sg_outVol l) h"

record tanhLayer =
  th_output :: Dimensions
  th_inVol :: "nat option"
  th_outVol :: "nat option"

definition NewTanhLayer :: "LayerDef \<Rightarrow> panic + tanhLayer" where
  "NewTanhLayer def =
     (if def_Type def \<noteq> Tanh then Inl (Panic ''Invalid layer type: != tanh'')
      else if Z (def_Output def) = 0
      then Inl (Panic ''Output depth cannot be 0 for tanh layer'')
      else Inr \<lparr>th_output = def_Output def, th_inVol = None, th_outVol = None\<rparr>)"

definition tanhLayer_Forward ::
  "tanhLayer \<Rightarrow> world \<Rightarrow> nat option \<Rightarrow> bool \<Rightarrow> panic + (tanhLayer \<times> world \<times> nat option)" where
  "tanhLayer_Forward l h0 vol training =
     (case elementwise_Forward tanh h0 vol of
        Inl e \<Rightarrow> Inl e
      | Inr (h1, v2) \<Rightarrow> Inr (l\<lparr>th_inVol := vol, th_outVol := v2\<rparr>, h1, v2))"

definition tanhLayer_Backward :: "tanhLayer \<Rightarrow> world \<Rightarrow> panic + world" where
  "tanhLayer_Backward l h =
     elementwise_Backward (\<lambda>v2wi. 1 - v2wi * v2wi) (th_inVol l) (th_outVol l) h"

section \<open>layers/conv.go\<close>

record convLayer =
  cvl_conf :: convLayerConfig
  cvl_input :: Dimensions
  cvl_output :: Dimensions
  cvl_inVol :: "nat option"
  cvl_outVol :: "nat option"
  cvl_filters :: "nat option list"
  cvl_biases :: "nat option"

definition NewConvLayerConfig :: "int \<Rightarrow> panic + LayerConfig" where
  "NewConvLayerConfig filters =
     (if filters \<le> 0 then Inl (Panic ''Filter count must be greater than 0'')
      else Inr (ConvPtr \<lparr>cv_FilterCount = filters, cv_Sx = filters, cv_Sy = 0, cv_Stride = 1,
                         cv_Padding = 0, cv_L1DecayMult = 0, cv_L2DecayMult = 1,
                         cv_PreferredBias = 0\<rparr>))"

text \<open>The output extent along one axis, computed in floating point and truncated:
  \<^verbatim>\<open>int(math.Floor((in + 2*pad - k)/stride + 1))\<close>. For a zero stride Go divides by zero
  in floating point and the conversion of the result to \<^verbatim>\<open>int\<close> is implementation
  defined; the value of this function there is not meant, and nothing below uses it.\<close>

definition out_extent :: "int \<Rightarrow> int \<Rightarrow> int \<Rightarrow> int \<Rightarrow> int" where
  "out_extent inp pad k stride =
     \<lfloor>(real_of_int inp + real_of_int pad * 2 - real_of_int k) / real_of_int stride + 1\<rfloor>"

definition NewConvLayer :: "world \<Rightarrow> LayerDef \<Rightarrow> panic + (convLayer \<times> world)" where
  "NewConvLayer h def =
     (if def_Type def \<noteq> Conv then Inl (Panic ''Invalid layer type: != conv'')
      else if Z (def_Output def) = 0 then Inl (Panic ''Output depth cannot be 0 for conv layer'')
      else
        (case def_LayerConfig def of
           NilConfig \<Rightarrow> Inl (Panic ''Config cannot be nil for conv layer'')
         | ConvPtr conf0 \<Rightarrow>
             (let conf = (if cv_Sy conf0 \<le> 0 then conf0\<lparr>cv_Sy := cv_Sx conf0\<rparr> else conf0);
                  outDepth = cv_FilterCount conf;
                  outSx = out_extent (X (def_Input def)) (cv_Padding conf) (cv_Sx conf) (cv_Stride conf);
                  outSy = out_extent (Y (def_Input def)) (cv_Padding conf) (cv_Sy conf) (cv_Stride conf);
                  outDim = NewDimensions outSx outSy outDepth;
                  bias = cv_PreferredBias conf
              in
                case new_filters h outDepth
                       (NewDimensions (cv_Sx conf) (cv_Sy conf) (Z (def_Input def))) of
                  Inl e \<Rightarrow> Inl e
                | Inr (filters, h1) \<Rightarrow>
                case NewVolume h1 (NewDimensions 1 1 outDepth) [WithInitialValue bias] of
                  Inl e \<Rightarrow> Inl e
                | Inr (h2, biases) \<Rightarrow>
                    Inr (\<lparr>cvl_conf = conf, cvl_input = def_Input def, cvl_output = outDim,
                          cvl_inVol = None, cvl_outVol = None, cvl_filters = filters,
                          cvl_biases = biases\<rparr>, h2))
         | _ \<Rightarrow> Inl (Panic ''Invalid LayerConfig for ConvLayer'')))"

text \<open>The three innermost loops of Forward at the window whose top-left input
  coordinate is \<open>(x, y)\<close>: the sum of \<open>filterValue * inputValue\<close> over the in-bounds
  kernel offsets. The input value is read at \<open>((vsx * oy) + ox) * vDim.Z + fz\<close>.\<close>

definition conv_window_sum ::
  "Volume \<Rightarrow> Volume \<Rightarrow> int \<Rightarrow> int \<Rightarrow> panic + real" where
  "conv_window_sum f vol x y =
     (let fDim = dimv f; vDim = dimv vol; vsx = X vDim; vsy = Y vDim in
      for_each [0..Y fDim - 1]
        (\<lambda>fy. let oy = int64 (y + fy) in
           for_each [0..X fDim - 1]
             (\<lambda>fx a. let ox = int64 (x + fx) in
                if oy \<ge> 0 \<and> oy < vsy \<and> ox \<ge> 0 \<and> ox < vsx then
                  for_each [0..Z fDim - 1]
                    (\<lambda>fz a.
                       case Volume_GetByIndex f (int64 (((X fDim * fy) + fx) * Z fDim + fz)) of
                         Inl e \<Rightarrow> Inl e
                       | Inr a1 \<Rightarrow>
                           (case Volume_GetByIndex vol (int64 (((vsx * oy) + ox) * Z vDim + fz)) of
                              Inl e \<Rightarrow> Inl e
                            | Inr a2 \<Rightarrow> Inr (a + a1 * a2)))
                    a
                else Inr a))
        (0::real))"

definition convLayer_Forward ::
  "convLayer \<Rightarrow> world \<Rightarrow> nat option \<Rightarrow> bool \<Rightarrow> panic + (convLayer \<times> world \<times> nat option)" where
  "convLayer_Forward l0 h0 vol training =
     (let l = l0\<lparr>cvl_inVol := vol\<rparr> in
      case NewVolume h0 (cvl_output l) [WithZeros] of
        Inl e \<Rightarrow> Inl e
      | Inr (h1, A) \<Rightarrow>
      case vol_read h1 vol (\<lambda>v. Inr (dimv v)) of
        Inl e \<Rightarrow> Inl e
      | Inr vDim \<Rightarrow>
      let stride = cv_Stride (cvl_conf l) in
      case for_each [0..Z (cvl_output l) - 1]
             (\<lambda>d h.
                case index_get (cvl_filters l) d of
                  Inl e \<Rightarrow> Inl e
                | Inr f \<Rightarrow>
                case for_each [0..Y (cvl_output l) - 1]
                       (\<lambda>ay (y0, h).
                          let y = int64 (y0 + stride) in
                          case for_each [0..X (cvl_output l) - 1]
                                 (\<lambda>ax (x0, h).
                                    let x = int64 (x0 + stride) in
                                    case vol_read h f
                                           (\<lambda>fv. vol_read h vol (\<lambda>v. conv_window_sum fv v x y)) of
                                      Inl e \<Rightarrow> Inl e
                                    | Inr a \<Rightarrow>
                                    case vol_read h (cvl_biases l) (\<lambda>v. Volume_GetByIndex v d) of
                                      Inl e \<Rightarrow> Inl e
                                    | Inr b \<Rightarrow>
                                    case vol_update h A (\<lambda>v. Volume_Set v ax ay d (a + b)) of
                                      Inl e \<Rightarrow> Inl e
                                    | Inr h' \<Rightarrow> Inr (x, h'))
                                 (int64 (- cv_Padding (cvl_conf l)), h) of
                            Inl e \<Rightarrow> Inl e
                          | Inr (x', h') \<Rightarrow> Inr (y, h'))
                       (int64 (- cv_Padding (cvl_conf l)), h) of
                  Inl e \<Rightarrow> Inl e
                | Inr (y', h') \<Rightarrow> Inr h')
             h1 of
        Inl e \<Rightarrow> Inl e
      | Inr h2 \<Rightarrow> Inr (l\<lparr>cvl_outVol := A\<rparr>, h2, A))"

text \<open>The three innermost loops of Backward at the window \<open>(x, y)\<close> of filter \<open>f\<close>:
  for every in-bounds kernel offset, \<open>ix1 := ((vsy * oy) + ox) * vDim.Z + fz\<close> and
  \<open>ix2 := ((fDim.X * fy) + fx) * fDim.Z + fz\<close>, then the two gradient additions.\<close>

definition conv_window_grad ::
  "convLayer \<Rightarrow> nat option \<Rightarrow> Dimensions \<Rightarrow> Dimensions \<Rightarrow> real \<Rightarrow> int \<Rightarrow> int \<Rightarrow>
     world \<Rightarrow> panic + world" where
  "conv_window_grad l f fDim vDim chainGrad x y h0 =
     (let vsx = X vDim; vsy = Y vDim in
      for_each [0..Y fDim - 1]
        (\<lambda>fy. let oy = int64 (y + fy) in
           for_each [0..X fDim - 1]
             (\<lambda>fx h. let ox = int64 (x + fx) in
                if oy \<ge> 0 \<and> oy < vsy \<and> ox \<ge> 0 \<and> ox < vsx then
                  for_each [0..Z fDim - 1]
                    (\<lambda>fz h.
                       let ix1 = int64 (((vsy * oy) + ox) * Z vDim + fz);
                           ix2 = int64 (((X fDim * fy) + fx) * Z fDim + fz)
                       in
                       case vol_read h (cvl_inVol l) (\<lambda>v. Volume_GetByIndex v ix1) of
                         Inl e \<Rightarrow> Inl e
                       | Inr iv \<Rightarrow>
                       case vol_update h f (\<lambda>v. Volume_AddGradByIndex v ix2 (iv * chainGrad)) of
                         Inl e \<Rightarrow> Inl e
                       | Inr h' \<Rightarrow>
                       case vol_read h' f (\<lambda>v. Volume_GetByIndex v ix2) of
                         Inl e \<Rightarrow> Inl e
                       | Inr fv \<Rightarrow>
                           vol_update h' (cvl_inVol l)
                             (\<lambda>v. Volume_AddGradByIndex v ix1 (fv * chainGrad)))
                    h
                else Inr h))
        h0)"

definition convLayer_Backward :: "convLayer \<Rightarrow> world \<Rightarrow> panic + world" where
  "convLayer_Backward l h0 =
     (case vol_update h0 (cvl_inVol l) Volume_ZeroGrad of
        Inl e \<Rightarrow> Inl e
      | Inr h1 \<Rightarrow>
      case vol_read h1 (cvl_inVol l) (\<lambda>v. Inr (dimv v)) of
        Inl e \<Rightarrow> Inl e
      | Inr vDim \<Rightarrow>
          let stride = cv_Stride (cvl_conf l) in
          for_each [0..Z (cvl_output l) - 1]
            (\<lambda>d h.
               case index_get (cvl_filters l) d of
                 Inl e \<Rightarrow> Inl e
               | Inr f \<Rightarrow>
               case vol_read h f (\<lambda>v. Inr (dimv v)) of
                 Inl e \<Rightarrow> Inl e
               | Inr fDim \<Rightarrow>
               case for_each [0..Y (cvl_output l) - 1]
                      (\<lambda>ay (y0, h).
                         let y = int64 (y0 + stride) in
                         case for_each [0..X (cvl_output l) - 1]
                                (\<lambda>ax (x0, h).
                                   let x = int64 (x0 + stride) in
                                   case vol_read h (cvl_outVol l) (\<lambda>v. Volume_GetGrad v ax ay d) of
                                     Inl e \<Rightarrow> Inl e
                                   | Inr chainGrad \<Rightarrow>
                                   case conv_window_grad l f fDim vDim chainGrad x y h of
                                     Inl e \<Rightarrow> Inl e
                                   | Inr h' \<Rightarrow>
                                   case vol_update h' (cvl_biases l)
                                          (\<lambda>v. Volume_AddGradByIndex v d chainGrad) of
                                     Inl e \<Rightarrow> Inl e
                                   | Inr h'' \<Rightarrow> Inr (x, h''))
                                (int64 (- cv_Padding (cvl_conf l)), h) of
                           Inl e \<Rightarrow> Inl e
                         | Inr (x', h') \<Rightarrow> Inr (y, h'))
                      (int64 (- cv_Padding (cvl_conf l)), h) of
                 Inl e \<Rightarrow> Inl e
               | Inr (y', h') \<Rightarrow> Inr h')
            h1)"

definition convLayer_GetResponse :: "convLayer \<Rightarrow> panic + LayerResponse list" where
  "convLayer_GetResponse l =
     filter_responses (Z (cvl_output l)) (cvl_filters l) (cvl_biases l)
       (cv_L1DecayMult (cvl_conf l)) (cv_L2DecayMult (cvl_conf l))"

section \<open>layers/pool.go\<close>

record poolLayer =
  pll_conf :: poolLayerConfig
  pll_input :: Dimensions
  pll_output :: Dimensions
  pll_inVol :: "nat option"
  pll_outVol :: "nat option"
  pll_switchX :: "int list"
  pll_switchY :: "int list"

definition NewPoolLayerConfig :: "int \<Rightarrow> panic + LayerConfig" where
  "NewPoolLayerConfig filters =
     (if filters \<le> 0 then Inl (Panic ''Filter count must be greater than 0'')
      else Inr (PoolPtr \<lparr>pl_Sx = filters, pl_Sy = filters, pl_Stride = 2, pl_Padding = 0\<rparr>))"

definition NewPoolLayer :: "LayerDef \<Rightarrow> panic + poolLayer" where
  "NewPoolLayer def =
     (if def_Type def \<noteq> Pool then Inl (Panic ''Invalid layer type: != pool'')
      else if Z (def_Output def) = 0 then Inl (Panic ''Output depth cannot be 0 for pool layer'')
      else
        (case def_LayerConfig def of
           NilConfig \<Rightarrow> Inl (Panic ''Config cannot be nil for pool layer'')
         | PoolPtr conf0 \<Rightarrow>
             (let conf = (if pl_Sy conf0 \<le> 0 then conf0\<lparr>pl_Sy := pl_Sx conf0\<rparr> else conf0);
                  outDepth = Z (def_Input def);
                  outSx = out_extent (X (def_Input def)) (pl_Padding conf) (pl_Sx conf) (pl_Stride conf);
                  outSy = out_extent (Y (def_Input def)) (pl_Padding conf) (pl_Sy conf) (pl_Stride conf);
                  outDim = NewDimensions outSx outSy outDepth
              in
                case make_slice (Size outDim) (0::int) of
                  Inl e \<Rightarrow> Inl e
                | Inr sx \<Rightarrow>
                    (case make_slice (Size outDim) (0::int) of
                       Inl e \<Rightarrow> Inl e
                     | Inr sy \<Rightarrow>
                         Inr \<lparr>pll_conf = conf, pll_input = def_Input def, pll_output = outDim,
                              pll_inVol = None, pll_outVol = None, pll_switchX = sx,
                              pll_switchY = sy\<rparr>))
         | _ \<Rightarrow> Inl (Panic ''Invalid LayerConfig for PoolLayer'')))"

text \<open>The scan of one pooling window whose top-left input coordinate is \<open>(x, y)\<close>, in
  channel \<open>d\<close>: the state is \<open>(a, winX, winY)\<close>, starting at \<open>(-1e5, -1, -1)\<close>.\<close>

definition pool_window ::
  "poolLayer \<Rightarrow> world \<Rightarrow> int \<Rightarrow> int \<Rightarrow> int \<Rightarrow> panic + (real \<times> int \<times> int)" where
  "pool_window l h x y d =
     for_each [0..pl_Sx (pll_conf l) - 1]
       (\<lambda>fx. for_each [0..pl_Sy (pll_conf l) - 1]
          (\<lambda>fy (a, winX, winY).
             let oy = int64 (y + fy); ox = int64 (x + fx) in
             if oy \<ge> 0 \<and> oy < Y (pll_input l) \<and> ox \<ge> 0 \<and> ox < X (pll_input l) then
               (case vol_read h (pll_inVol l) (\<lambda>v. Volume_Get v ox oy d) of
                  Inl e \<Rightarrow> Inl e
                | Inr v \<Rightarrow> if v > a then Inr (v, ox, oy) else Inr (a, winX, winY))
             else Inr (a, winX, winY)))
       (- 100000, - 1, - 1)"

definition poolLayer_Forward ::
  "poolLayer \<Rightarrow> world \<Rightarrow> nat option \<Rightarrow> bool \<Rightarrow> panic + (poolLayer \<times> world \<times> nat option)" where
  "poolLayer_Forward l0 h0 vol training =
     (let l = l0\<lparr>pll_inVol := vol\<rparr> in
      case NewVolume h0 (pll_output l) [WithZeros] of
        Inl e \<Rightarrow> Inl e
      | Inr (h1, A) \<Rightarrow>
      case for_each [0..Z (pll_output l) - 1]
             (\<lambda>d (n, sx, sy, h).
                case for_each [0..X (pll_output l) - 1]
                       (\<lambda>ax (x0, n, sx, sy, h).
                          let x = int64 (x0 + pl_Stride (pll_conf l)) in
                          case for_each [0..Y (pll_output l) - 1]
                                 (\<lambda>ay (y0, n, sx, sy, h).
                                    let y = int64 (y0 + pl_Stride (pll_conf l)) in
                                    case pool_window l h x y d of
                                      Inl e \<Rightarrow> Inl e
                                    | Inr (a, winX, winY) \<Rightarrow>
                                    case index_set sx n winX of
                                      Inl e \<Rightarrow> Inl e
                                    | Inr sx' \<Rightarrow>
                                    case index_set sy n winY of
                                      Inl e \<Rightarrow> Inl e
                                    | Inr sy' \<Rightarrow>
                                    case vol_update h A (\<lambda>v. Volume_Set v ax ay d a) of
                                      Inl e \<Rightarrow> Inl e
                                    | Inr h' \<Rightarrow> Inr (y, int64 (n + 1), sx', sy', h'))
                                 (int64 (- pl_Padding (pll_conf l)), n, sx, sy, h) of
                            Inl e \<Rightarrow> Inl e
                          | Inr (y', n', sx', sy', h') \<Rightarrow> Inr (x, n', sx', sy', h'))
                       (int64 (- pl_Padding (pll_conf l)), n, sx, sy, h) of
                  Inl e \<Rightarrow> Inl e
                | Inr (x', n', sx', sy', h') \<Rightarrow> Inr (n', sx', sy', h'))
             (0::int, pll_switchX l, pll_switchY l, h1) of
        Inl e \<Rightarrow> Inl e
      | Inr (n, sx, sy, h2) \<Rightarrow>
          Inr (l\<lparr>pll_switchX := sx, pll_switchY := sy, pll_outVol := A\<rparr>, h2, A))"

text \<open>Backward advances \<open>x\<close> and \<open>y\<close> as Forward does but never reads them; only the
  running counter \<open>n\<close> is kept in the loop state.\<close>

definition poolLayer_Backward :: "poolLayer \<Rightarrow> world \<Rightarrow> panic + world" where
  "poolLayer_Backward l h0 =
     (case vol_update h0 (pll_inVol l) Volume_ZeroGrad of
        Inl e \<Rightarrow> Inl e
      | Inr h1 \<Rightarrow>
      case for_each [0..Z (pll_output l) - 1]
             (\<lambda>d. for_each [0..X (pll_output l) - 1]
                (\<lambda>ax. for_each [0..Y (pll_output l) - 1]
                   (\<lambda>ay (n, h).
                      case vol_read h (pll_outVol l) (\<lambda>v. Volume_GetGrad v ax ay d) of
                        Inl e \<Rightarrow> Inl e
                      | Inr chainGrad \<Rightarrow>
                      case index_get (pll_switchX l) n of
                        Inl e \<Rightarrow> Inl e
                      | Inr wx \<Rightarrow>
                      case index_get (pll_switchY l) n of
                        Inl e \<Rightarrow> Inl e
                      | Inr wy \<Rightarrow>
                      case vol_update h (pll_inVol l) (\<lambda>v. Volume_AddGrad v wx wy d chainGrad) of
                        Inl e \<Rightarrow> Inl e
                      | Inr h' \<Rightarrow> Inr (int64 (n + 1), h'))))
             (0::int, h1) of
        Inl e \<Rightarrow> Inl e
      | Inr (n, h2) \<Rightarrow> Inr h2)"

section \<open>layers/maxout.go\<close>

record maxoutLayer =
  mo_conf :: MaxoutLayerConfig
  mo_output :: Dimensions
  mo_inVol :: "nat option"
  mo_outVol :: "nat option"
  mo_switches :: "int list"

definition NewMaxoutLayer :: "LayerDef \<Rightarrow> panic + maxoutLayer" where
  "NewMaxoutLayer def =
     (if def_Type def \<noteq> Maxout then Inl (Panic ''Invalid layer type: != maxout'')
      else if Z (def_Output def) = 0
      then Inl (Panic ''Output depth cannot be 0 for maxout layer'')
      else
        (case def_LayerConfig def of
           MaxoutPtr conf \<Rightarrow>
             if GroupSize conf \<le> 0
             then Inl (Panic ''Group size cannot be  <= 0 for maxout layer'')
             else
               (case make_slice (Size (def_Output def)) (0::int) of
                  Inl e \<Rightarrow> Inl e
                | Inr sw \<Rightarrow>
                    Inr \<lparr>mo_conf = conf, mo_output = def_Output def, mo_inVol = None,
                         mo_outVol = None, mo_switches = sw\<rparr>)
         | _ \<Rightarrow> Inl (Panic ''Invalid layer config: expected MaxoutLayerConfig'')))"

text \<open>The scan of one group of \<open>GroupSize\<close> channels: the loop over \<open>j\<close> that
  both branches of Forward contain, with state \<open>(a, ai)\<close>.\<close>

definition maxout_scan ::
  "maxoutLayer \<Rightarrow> (int \<Rightarrow> panic + real) \<Rightarrow> real \<Rightarrow> panic + (real \<times> int)" where
  "maxout_scan l read a0 =
     for_each [1..GroupSize (mo_conf l) - 1]
       (\<lambda>j (a, ai).
          case read j of
            Inl e \<Rightarrow> Inl e
          | Inr a2 \<Rightarrow> if a2 > a then Inr (a2, j) else Inr (a, ai))
       (a0, 0)"

definition maxoutLayer_Forward ::
  "maxoutLayer \<Rightarrow> world \<Rightarrow> nat option \<Rightarrow> bool \<Rightarrow> panic + (maxoutLayer \<times> world \<times> nat option)" where
  "maxoutLayer_Forward l0 h0 vol training =
     (let l = l0\<lparr>mo_inVol := vol\<rparr> in
      case Volume_CloneAndZero h0 (mo_outVol l) of
        Inl e \<Rightarrow> Inl e
      | Inr (h1, v2) \<Rightarrow>
          let n = Z (mo_output l) in
          if X (mo_output l) = 1 \<and> Y (mo_output l) = 1 then
            (case for_each [0..n - 1]
                    (\<lambda>i (sw, h).
                       let ix = int64 (i * GroupSize (mo_conf l)) in
                       case vol_read h (mo_inVol l) (\<lambda>v. Volume_GetByIndex v ix) of
                         Inl e \<Rightarrow> Inl e
                       | Inr a0 \<Rightarrow>
                       case maxout_scan l
                              (\<lambda>j. vol_read h (mo_inVol l) (\<lambda>v. Volume_GetByIndex v (int64 (ix + j)))) a0 of
                         Inl e \<Rightarrow> Inl e
                       | Inr (a, ai) \<Rightarrow>
                       case vol_update h v2 (\<lambda>v. Volume_SetByIndex v i a) of
                         Inl e \<Rightarrow> Inl e
                       | Inr h' \<Rightarrow>
                       case index_set sw i (int64 (ix + ai)) of
                         Inl e \<Rightarrow> Inl e
                       | Inr sw' \<Rightarrow> Inr (sw', h'))
                    (mo_switches l, h1) of
               Inl e \<Rightarrow> Inl e
             | Inr (sw, h2) \<Rightarrow> Inr (l\<lparr>mo_outVol := v2, mo_switches := sw\<rparr>, h2, v2))
          else
            (case for_each [0..X (mo_output l) - 1]
                    (\<lambda>x. for_each [0..Y (mo_output l) - 1]
                       (\<lambda>y. for_each [0..n - 1]
                          (\<lambda>i (sw, si, h).
                             let ix = int64 (i * GroupSize (mo_conf l)) in
                             case vol_read h (mo_inVol l) (\<lambda>v. Volume_Get v x y ix) of
                               Inl e \<Rightarrow> Inl e
                             | Inr a0 \<Rightarrow>
                             case maxout_scan l
                                    (\<lambda>j. vol_read h (mo_inVol l) (\<lambda>v. Volume_Get v x y (int64 (ix + j)))) a0 of
                               Inl e \<Rightarrow> Inl e
                             | Inr (a, ai) \<Rightarrow>
                             case vol_update h v2 (\<lambda>v. Volume_Set v x y i a) of
                               Inl e \<Rightarrow> Inl e
                             | Inr h' \<Rightarrow>
                             case index_set sw n (int64 (ix + ai)) of
                               Inl e \<Rightarrow> Inl e
                             | Inr sw' \<Rightarrow> Inr (sw', int64 (si + 1), h'))))
                    (mo_switches l, 0::int, h1) of
               Inl e \<Rightarrow> Inl e
             | Inr (sw, si, h2) \<Rightarrow> Inr (l\<lparr>mo_outVol := v2, mo_switches := sw\<rparr>, h2, v2)))"

definition maxoutLayer_Backward :: "maxoutLayer \<Rightarrow> world \<Rightarrow> panic + world" where
  "maxoutLayer_Backward l h0 =
     (let n = Z (mo_output l) in
      case vol_update h0 (mo_inVol l) Volume_ZeroGrad of
        Inl e \<Rightarrow> Inl e
      | Inr h1 \<Rightarrow>
          if X (mo_output l) = 1 \<and> Y (mo_output l) = 1 then
            for_each [0..n - 1]
              (\<lambda>i h.
                 case vol_read h (mo_outVol l) (\<lambda>v. Volume_GetGradByIndex v i) of
                   Inl e \<Rightarrow> Inl e
                 | Inr chainGrad \<Rightarrow>
                 case index_get (mo_switches l) i of
                   Inl e \<Rightarrow> Inl e
                 | Inr sw \<Rightarrow>
                     vol_update h (mo_inVol l) (\<lambda>v. Volume_SetGradByIndex v sw chainGrad))
              h1
          else
            (case for_each [0..X (mo_output l) - 1]
                    (\<lambda>x. for_each [0..Y (mo_output l) - 1]
                       (\<lambda>y. for_each [0..n - 1]
                          (\<lambda>i (si, h).
                             case vol_read h (mo_outVol l) (\<lambda>v. Volume_GetGrad v x y i) of
                               Inl e \<Rightarrow> Inl e
                             | Inr chainGrad \<Rightarrow>
                             case index_get (mo_switches l) si of
                               Inl e \<Rightarrow> Inl e
                             | Inr sw \<Rightarrow>
                             case vol_update h (mo_inVol l)
                                    (\<lambda>v. Volume_SetGrad v x y sw chainGrad) of
                               Inl e \<Rightarrow> Inl e
                             | Inr h' \<Rightarrow> Inr (int64 (si + 1), h'))))
                    (0::int, h1) of
               Inl e \<Rightarrow> Inl e
             | Inr (si, h2) \<Rightarrow> Inr h2))"

section \<open>The Layer interface and its twelve implementations\<close>

datatype Layer =
    InputL inputLayer
  | FullyConnL fullyConnLayer
  | DropoutL dropoutLayer
  | SoftmaxL softmaxLayer
  | RegressionL regressionLayer
  | ConvL convLayer
  | PoolL poolLayer
  | ReluL reluLayer
  | SigmoidL sigmoidLayer
  | TanhL tanhLayer
  | MaxoutL maxoutLayer
  | SVML svmLayer

fun Layer_Type :: "Layer \<Rightarrow> LayerType" where
  "Layer_Type (InputL l) = Input"
| "Layer_Type (FullyConnL l) = FullyConnected"
| "Layer_Type (DropoutL l) = Dropout"
| "Layer_Type (SoftmaxL l) = SoftMax"
| "Layer_Type (RegressionL l) = Regression"
| "Layer_Type (ConvL l) = Conv"
| "Layer_Type (PoolL l) = Pool"
| "Layer_Type (ReluL l) = ReLU"
| "Layer_Type (SigmoidL l) = Sigmoid"
| "Layer_Type (TanhL l) = Tanh"
| "Layer_Type (MaxoutL l) = Maxout"
| "Layer_Type (SVML l) = SVM"

definition lift_Forward ::
  "('l \<Rightarrow> Layer) \<Rightarrow> panic + ('l \<times> world \<times> nat option) \<Rightarrow> panic + (Layer \<times> world \<times> nat option)" where
  "lift_Forward C r = (case r of Inl e \<Rightarrow> Inl e | Inr (l, h, out) \<Rightarrow> Inr (C l, h, out))"

fun Layer_Forward ::
  "Layer \<Rightarrow> world \<Rightarrow> nat option \<Rightarrow> bool \<Rightarrow> panic + (Layer \<times> world \<times> nat option)" where
  "Layer_Forward (InputL l) h vol t = lift_Forward InputL (inputLayer_Forward l h vol t)"
| "Layer_Forward (FullyConnL l) h vol t = lift_Forward FullyConnL (fullyConnLayer_Forward l h vol t)"
| "Layer_Forward (DropoutL l) h vol t = lift_Forward DropoutL (dropoutLayer_Forward l h vol t)"
| "Layer_Forward (SoftmaxL l) h vol t = lift_Forward SoftmaxL (softmaxLayer_Forward l h vol t)"
| "Layer_Forward (RegressionL l) h vol t = lift_Forward RegressionL (regressionLayer_Forward l h vol t)"
| "Layer_Forward (ConvL l) h vol t = lift_Forward ConvL (convLayer_Forward l h vol t)"
| "Layer_Forward (PoolL l) h vol t = lift_Forward PoolL (poolLayer_Forward l h vol t)"
| "Layer_Forward (ReluL l) h vol t = lift_Forward ReluL (reluLayer_Forward l h vol t)"
| "Layer_Forward (SigmoidL l) h vol t = lift_Forward SigmoidL (sigmoidLayer_Forward l h vol t)"
| "Layer_Forward (TanhL l) h vol t = lift_Forward TanhL (tanhLayer_Forward l h vol t)"
| "Layer_Forward (MaxoutL l) h vol t = lift_Forward MaxoutL (maxoutLayer_Forward l h vol t)"
| "Layer_Forward (SVML l) h vol t = lift_Forward SVML (svmLayer_Forward l h vol t)"

text \<open>No Backward assigns a field of its layer: it changes volumes only.\<close>

fun Layer_Backward :: "Layer \<Rightarrow> world \<Rightarrow> panic + world" where
  "Layer_Backward (InputL l) h = inputLayer_Backward l h"
| "Layer_Backward (FullyConnL l) h = fullyConnLayer_Backward l h"
| "Layer_Backward (DropoutL l) h = dropoutLayer_Backward l h"
| "Layer_Backward (SoftmaxL l) h = softmaxLayer_Backward l h"
| "Layer_Backward (RegressionL l) h = regressionLayer_Backward l h"
| "Layer_Backward (ConvL l) h = convLayer_Backward l h"
| "Layer_Backward (PoolL l) h = poolLayer_Backward l h"
| "Layer_Backward (ReluL l) h = reluLayer_Backward l h"
| "Layer_Backward (SigmoidL l) h = sigmoidLayer_Backward l h"
| "Layer_Backward (TanhL l) h = tanhLayer_Backward l h"
| "Layer_Backward (MaxoutL l) h = maxoutLayer_Backward l h"
| "Layer_Backward (SVML l) h = svmLayer_Backward l h"

fun Layer_GetResponse :: "Layer \<Rightarrow> panic + LayerResponse list" where
  "Layer_GetResponse (FullyConnL l) = fullyConnLayer_GetResponse l"
| "Layer_GetResponse (ConvL l) = convLayer_GetResponse l"
| "Layer_GetResponse _ = Inr []"

text \<open>The type assertion \<^verbatim>\<open>.(layers.LossLayer)\<close> succeeds for the two layer types that
  have a \<^verbatim>\<open>Loss(index int) float64\<close> method, softmax and SVM; the regression layer has
  \<^verbatim>\<open>MultiDimensionalLoss\<close> and \<^verbatim>\<open>DimensionalLoss\<close> instead and is a
  \<^verbatim>\<open>RegressionLossLayer\<close>.\<close>

fun as_LossLayer :: "Layer \<Rightarrow> (world \<Rightarrow> int \<Rightarrow> panic + (real \<times> world)) option" where
  "as_LossLayer (SoftmaxL l) = Some (softmaxLayer_Loss l)"
| "as_LossLayer (SVML l) = Some (svmLayer_Loss l)"
| "as_LossLayer _ = None"

fun is_RegressionLossLayer :: "Layer \<Rightarrow> bool" where
  "is_RegressionLossLayer (RegressionL l) = True"
| "is_RegressionLossLayer _ = False"

section \<open>ActivateLayers\<close>

definition plain_def :: "LayerType \<Rightarrow> LayerConfig \<Rightarrow> LayerDef" where
  "plain_def t c =
     \<lparr>def_Type = t, def_Input = \<lparr>X = 0, Y = 0, Z = 0\<rparr>, def_Output = \<lparr>X = 0, Y = 0, Z = 0\<rparr>,
      def_Activation = [], def_Dropout = None, def_Maxout = None, def_LayerConfig = c\<rparr>"

text \<open>The four steps of the loop body for one definition: the implicit fully connected
  layer in front of a classifier or regression head, the bias preferred by a ReLU
  activation, the activation layer and the dropout layer.\<close>

definition implicit_fc :: "LayerDef \<Rightarrow> panic + LayerDef list" where
  "implicit_fc def =
     (case (if def_Type def = SoftMax \<or> def_Type def = SVM then
              (case def_LayerConfig def of
                 SoftMaxPtr conf \<Rightarrow>
                   (case NewFullyConnectedLayerConfig (sm_Classes conf) of
                      Inl e \<Rightarrow> Inl e
                    | Inr c \<Rightarrow> Inr [plain_def FullyConnected c])
               | SVMPtr conf \<Rightarrow>
                   (case NewFullyConnectedLayerConfig (svm_Classes conf) of
                      Inl e \<Rightarrow> Inl e
                    | Inr c \<Rightarrow> Inr [plain_def FullyConnected c])
               | _ \<Rightarrow> Inl (Panic ''invalid LayerConfig''))
            else Inr []) of
        Inl e \<Rightarrow> Inl e
      | Inr pre \<Rightarrow>
          if def_Type def = Regression then
            (case def_LayerConfig def of
               RegressionPtr conf \<Rightarrow>
                 (case NewFullyConnectedLayerConfig (rg_Neurons conf) of
                    Inl e \<Rightarrow> Inl e
                  | Inr c \<Rightarrow> Inr (pre @ [plain_def FullyConnected c]))
             | _ \<Rightarrow> Inl (Panic ''invalid LayerConfig for svmLayerConfig''))
          else Inr pre)"

definition update_bias :: "LayerDef \<Rightarrow> LayerDef" where
  "update_bias def =
     (if (def_Type def = FullyConnected \<or> def_Type def = Conv) \<and> def_Activation def = ReLU then
        (case def_LayerConfig def of
           FullyConnPtr conf \<Rightarrow>
             def\<lparr>def_LayerConfig := FullyConnPtr (conf\<lparr>fc_PreferredBias := 1 / 10\<rparr>)\<rparr>
         | ConvPtr conf \<Rightarrow>
             def\<lparr>def_LayerConfig := ConvPtr (conf\<lparr>cv_PreferredBias := 1 / 10\<rparr>)\<rparr>
         | _ \<Rightarrow> def)
      else def)"

definition activation_defs :: "LayerDef \<Rightarrow> panic + LayerDef list" where
  "activation_defs def =
     (if def_Activation def \<noteq> [] then
        (if def_Activation def = ReLU then Inr [plain_def ReLU NilConfig]
         else if def_Activation def = Sigmoid then Inr [plain_def Sigmoid NilConfig]
         else if def_Activation def = Tanh then Inr [plain_def Tanh NilConfig]
         else if def_Activation def = Maxout then
           (let groupSize = (case def_Maxout def of None \<Rightarrow> 2 | Some m \<Rightarrow> GroupSize m) in
            Inr [plain_def Maxout (MaxoutVal \<lparr>GroupSize = groupSize\<rparr>)])
         else Inl (Panic ''unsupported activation''))
      else Inr [])"

definition dropout_defs :: "LayerDef \<Rightarrow> LayerDef list" where
  "dropout_defs def =
     (case def_Dropout def of
        None \<Rightarrow> []
      | Some c \<Rightarrow> [plain_def Dropout (DropoutPtr c)])"

definition ActivateLayers :: "LayerDef list \<Rightarrow> panic + LayerDef list" where
  "ActivateLayers defs =
     for_each defs
       (\<lambda>def newDefs.
          case implicit_fc def of
            Inl e \<Rightarrow> Inl e
          | Inr pre \<Rightarrow>
              (let def' = update_bias def in
               case activation_defs def' of
                 Inl e \<Rightarrow> Inl e
               | Inr act \<Rightarrow> Inr (newDefs @ pre @ [def'] @ act @ dropout_defs def')))
       []"

section \<open>The network\<close>

record network =
  layers :: "Layer list"

definition network_Size :: "network \<Rightarrow> int" where
  "network_Size n = int (length (layers n))"

definition lift_New :: "('l \<Rightarrow> Layer) \<Rightarrow> world \<Rightarrow> panic + 'l \<Rightarrow> panic + (Layer \<times> world)" where
  "lift_New C h r = (case r of Inl e \<Rightarrow> Inl e | Inr l \<Rightarrow> Inr (C l, h))"

definition lift_NewW :: "('l \<Rightarrow> Layer) \<Rightarrow> panic + ('l \<times> world) \<Rightarrow> panic + (Layer \<times> world)" where
  "lift_NewW C r = (case r of Inl e \<Rightarrow> Inl e | Inr (l, h) \<Rightarrow> Inr (C l, h))"

text \<open>The \<^verbatim>\<open>switch def.Type\<close> of NewNetwork: the constructor for the type, or \<open>None\<close> in
  the default case (unrecognized layer type).\<close>

definition new_layer :: "world \<Rightarrow> LayerDef \<Rightarrow> (panic + (Layer \<times> world)) option" where
  "new_layer h def =
     (if def_Type def = FullyConnected then Some (lift_NewW FullyConnL (NewFullyConnectedLayer h def))
      else if def_Type def = Dropout then Some (lift_New DropoutL h (NewDropoutLayer def))
      else if def_Type def = Input then Some (lift_New InputL h (NewInputLayer def))
      else if def_Type def = SoftMax then Some (lift_New SoftmaxL h (NewSoftmaxLayer def))
      else if def_Type def = Regression then Some (lift_New RegressionL h (NewRegressionLayer def))
      else if def_Type def = Conv then Some (lift_NewW ConvL (NewConvLayer h def))
      else if def_Type def = Pool then Some (lift_New PoolL h (NewPoolLayer def))
      else if def_Type def = ReLU then Some (lift_New ReluL h (NewReluLayer def))
      else if def_Type def = Sigmoid then Some (lift_New SigmoidL h (NewSigmoidLayer def))
      else if def_Type def = Tanh then Some (lift_New TanhL h (NewTanhLayer def))
      else if def_Type def = Maxout then Some (lift_New MaxoutL h (NewMaxoutLayer def))
      else if def_Type def = SVM then Some (lift_New SVML h (NewSVMLayer def))
      else None)"

text \<open>The loop of NewNetwork over the expanded definitions. Element \<open>i > 0\<close> takes
  its input dimensions from the output dimensions of element \<open>i - 1\<close> of the expanded
  list (\<open>inherit_inputs\<close>: the loop variable is a copy, so the list itself is not
  changed). The loop ends early with the returned error in the default case.\<close>

definition inherit_inputs :: "LayerDef list \<Rightarrow> LayerDef list" where
  "inherit_inputs defs =
     map (\<lambda>i. if i > 0 then (defs ! i)\<lparr>def_Input := def_Output (defs ! (i - 1))\<rparr> else defs ! i)
       [0..<length defs]"

fun build_layers ::
  "LayerDef list \<Rightarrow> Layer list \<Rightarrow> world \<Rightarrow> panic + (string + (Layer list \<times> world))" where
  "build_layers [] newLayers h = Inr (Inr (newLayers, h))"
| "build_layers (def # rest) newLayers h =
     (case new_layer h def of
        None \<Rightarrow> Inr (Inl ''unrecognized layer type'')
      | Some (Inl e) \<Rightarrow> Inl e
      | Some (Inr (l, h')) \<Rightarrow> build_layers rest (newLayers @ [l]) h')"

text \<open>NewNetwork returns \<^verbatim>\<open>(Network, error)\<close>: the inner left summand is the error
  returned with a nil network, the outer left summand a panic raised on the way.\<close>

definition NewNetwork :: "world \<Rightarrow> LayerDef list \<Rightarrow> panic + (string + (network \<times> world))" where
  "NewNetwork h defs =
     (if length defs \<le> 2
      then Inr (Inl ''at least one input and one loss layer are required'')
      else if def_Type (defs ! 0) \<noteq> Input
      then Inr (Inl ''first layer must be the input layer, to declare size of inputs'')
      else
        (case ActivateLayers defs of
           Inl e \<Rightarrow> Inl e
         | Inr defs' \<Rightarrow>
             (case build_layers (inherit_inputs defs') [] h of
                Inl e \<Rightarrow> Inl e
              | Inr (Inl err) \<Rightarrow> Inr (Inl err)
              | Inr (Inr (newLayers, h')) \<Rightarrow> Inr (Inr (\<lparr>layers = newLayers\<rparr>, h')))))"

text \<open>Forward: the first layer, then the loop from index 1; every call is given the
  argument \<open>vol\<close>. The layers are pointers held in the slice, so what a Forward stores
  in its layer stays in the network.\<close>

definition network_Forward ::
  "network \<Rightarrow> world \<Rightarrow> nat option \<Rightarrow> bool \<Rightarrow> panic + (network \<times> world \<times> nat option)" where
  "network_Forward n h0 vol training =
     (case index_get (layers n) 0 of
        Inl e \<Rightarrow> Inl e
      | Inr l0 \<Rightarrow>
      case Layer_Forward l0 h0 vol training of
        Inl e \<Rightarrow> Inl e
      | Inr (l0', h1, actions0) \<Rightarrow>
      case for_each [1..int (length (layers n)) - 1]
             (\<lambda>index (ls, h, actions).
                case index_get ls index of
                  Inl e \<Rightarrow> Inl e
                | Inr l \<Rightarrow>
                    (case Layer_Forward l h vol training of
                       Inl e \<Rightarrow> Inl e
                     | Inr (l', h', out) \<Rightarrow> Inr (ls[nat index := l'], h', out)))
             ((layers n)[0 := l0'], h1, actions0) of
        Inl e \<Rightarrow> Inl e
      | Inr (ls, h2, actions) \<Rightarrow> Inr (n\<lparr>layers := ls\<rparr>, h2, actions))"

text \<open>The pipeline the specification asks for, in its words: each layer's Forward
  consumes the previous layer's output tensor, the first layer receiving the caller's
  input; the result is the last layer's output.\<close>

definition threaded_Forward ::
  "network \<Rightarrow> world \<Rightarrow> nat option \<Rightarrow> bool \<Rightarrow> panic + (network \<times> world \<times> nat option)" where
  "threaded_Forward n h0 vol training =
     (case index_get (layers n) 0 of
        Inl e \<Rightarrow> Inl e
      | Inr l0 \<Rightarrow>
      case Layer_Forward l0 h0 vol training of
        Inl e \<Rightarrow> Inl e
      | Inr (l0', h1, actions0) \<Rightarrow>
      case for_each [1..int (length (layers n)) - 1]
             (\<lambda>index (ls, h, actions).
                case index_get ls index of
                  Inl e \<Rightarrow> Inl e
                | Inr l \<Rightarrow>
                    (case Layer_Forward l h actions training of
                       Inl e \<Rightarrow> Inl e
                     | Inr (l', h', out) \<Rightarrow> Inr (ls[nat index := l'], h', out)))
             ((layers n)[0 := l0'], h1, actions0) of
        Inl e \<Rightarrow> Inl e
      | Inr (ls, h2, actions) \<Rightarrow> Inr (n\<lparr>layers := ls\<rparr>, h2, actions))"

text \<open>Backward: the last layer must be a loss layer; its loss is computed, then
  Backward is called on the layers at \<open>size - 2\<close> down to \<open>0\<close>.\<close>

definition network_Backward :: "network \<Rightarrow> world \<Rightarrow> int \<Rightarrow> panic + (real \<times> world)" where
  "network_Backward n h0 index =
     (let size = network_Size n in
      case index_get (layers n) (size - 1) of
        Inl e \<Rightarrow> Inl e
      | Inr lastLayer \<Rightarrow>
          (case as_LossLayer lastLayer of
             None \<Rightarrow> Inl (Panic ''expecting loss layer as last layer in network'')
           | Some lossFn \<Rightarrow>
               (case lossFn h0 index of
                  Inl e \<Rightarrow> Inl e
                | Inr (loss, h1) \<Rightarrow>
                    (case for_each (rev [0..network_Size n - 2])
                            (\<lambda>index h.
                               case index_get (layers n) index of
                                 Inl e \<Rightarrow> Inl e
                               | Inr l \<Rightarrow> Layer_Backward l h)
                            h1 of
                       Inl e \<Rightarrow> Inl e
                     | Inr h2 \<Rightarrow> Inr (loss, h2)))))"

definition network_GetResponse :: "network \<Rightarrow> panic + LayerResponse list" where
  "network_GetResponse n =
     for_each [0..int (length (layers n)) - 1]
       (\<lambda>index resp.
          case index_get (layers n) index of
            Inl e \<Rightarrow> Inl e
          | Inr l \<Rightarrow>
              (case Layer_GetResponse l of
                 Inl e \<Rightarrow> Inl e
               | Inr layerResponse \<Rightarrow> Inr (resp @ layerResponse)))
       []"

section \<open>The trainer\<close>

type_synonym TrainingMethod = string

definition SGD :: TrainingMethod where "SGD = ''sgd''"
definition Adam :: TrainingMethod where "Adam = ''adam''"
definition Adagrad :: TrainingMethod where "Adagrad = ''adagrad''"
definition Adadelta :: TrainingMethod where "Adadelta = ''adadelta''"
definition Windowgrad :: TrainingMethod where "Windowgrad = ''windowgrad''"
definition Netsterov :: TrainingMethod where "Netsterov = ''netsterov''"

lemmas TrainingMethod_defs =
  SGD_def Adam_def Adagrad_def Adadelta_def Windowgrad_def Netsterov_def

record Options =
  Method :: TrainingMethod
  LearningRate :: real
  L1Decay :: real
  L2Decay :: real
  BatchSize :: int
  Momentum :: real
  Ro :: real
  Eps :: real
  Beta1 :: real
  Beta2 :: real

definition WithMethod :: "TrainingMethod \<Rightarrow> Options \<Rightarrow> Options" where
  "WithMethod m opts = opts\<lparr>Method := m\<rparr>"

definition WithLearningRate :: "real \<Rightarrow> Options \<Rightarrow> Options" where
  "WithLearningRate rate opts = opts\<lparr>LearningRate := rate\<rparr>"

definition WithDecay :: "real \<Rightarrow> real \<Rightarrow> Options \<Rightarrow> Options" where
  "WithDecay l1 l2 opts = opts\<lparr>L1Decay := l1, L2Decay := l2\<rparr>"

definition WithBatchSize :: "int \<Rightarrow> Options \<Rightarrow> Options" where
  "WithBatchSize n opts = opts\<lparr>BatchSize := n\<rparr>"

definition WithMomentum :: "real \<Rightarrow> Options \<Rightarrow> Options" where
  "WithMomentum m opts = opts\<lparr>Momentum := m\<rparr>"

definition WithEps :: "real \<Rightarrow> Options \<Rightarrow> Options" where
  "WithEps e opts = opts\<lparr>Eps := e\<rparr>"

definition WithAdam :: "real \<Rightarrow> real \<Rightarrow> real \<Rightarrow> Options \<Rightarrow> Options" where
  "WithAdam ro beta1 beta2 opts = opts\<lparr>Method := Adam, Ro := ro, Beta1 := beta1, Beta2 := beta2\<rparr>"

definition baseOpts :: Options where
  "baseOpts =
     \<lparr>Method = SGD, LearningRate = 1 / 100, L1Decay = 0, L2Decay = 0, BatchSize = 1,
      Momentum = 9 / 10, Ro = 95 / 100, Eps = 1 / 100000000, Beta1 = 9 / 10,
      Beta2 = 999 / 1000\<rparr>"

record trainer =
  t_net :: network
  t_opts :: Options
  t_k :: int
  t_gsum :: "real list list"
  t_xsum :: "real list list"
  t_regression :: bool

text \<open>The \<^verbatim>\<open>Network\<close> argument of NewTrainer is an interface value; \<open>None\<close> is nil.\<close>

definition NewTrainer :: "network option \<Rightarrow> (Options \<Rightarrow> Options) list \<Rightarrow> panic + trainer" where
  "NewTrainer net opts =
     (case net of
        None \<Rightarrow> Inl (Panic ''network cannot be nil'')
      | Some n \<Rightarrow>
          (let o' = fold (\<lambda>optFn acc. optFn acc) opts baseOpts in
           case index_get (layers n) (network_Size n - 1) of
             Inl e \<Rightarrow> Inl e
           | Inr l \<Rightarrow>
               Inr \<lparr>t_net = n, t_opts = o', t_k = 0, t_gsum = [], t_xsum = [],
                    t_regression = is_RegressionLossLayer l\<rparr>))"

type_synonym LossFunc = "network \<Rightarrow> world \<Rightarrow> panic + (real \<times> world)"

definition LabeledLossFunc :: "int \<Rightarrow> LossFunc" where
  "LabeledLossFunc label = (\<lambda>net h. network_Backward net h label)"

text \<open>The initialisation of the accumulator lists. In Go \<^verbatim>\<open>&&\<close> binds tighter than
  \<^verbatim>\<open>||\<close>, so the guard reads \<open>(len(gsum) = 0 \<and> Method = SGD) \<or> Momentum > 0\<close>.\<close>

definition init_accumulators ::
  "Options \<Rightarrow> world \<Rightarrow> LayerResponse list \<Rightarrow> real list list \<times> real list list \<Rightarrow>
     panic + (real list list \<times> real list list)" where
  "init_accumulators opts h pgList acc =
     (if length (fst acc) = 0 \<and> Method opts = SGD \<or> Momentum opts > 0 then
        for_each [0..int (length pgList) - 1]
          (\<lambda>i (gsum, xsum).
             case index_get pgList i of
               Inl e \<Rightarrow> Inl e
             | Inr pg \<Rightarrow>
                 (let len = int (length (w (vols h (lr_vol pg)))) in
                  case make_slice len (0::real) of
                    Inl e \<Rightarrow> Inl e
                  | Inr zs \<Rightarrow>
                      if Method opts = Adam \<or> Method opts = Adadelta
                      then Inr (gsum @ [zs], xsum @ [zs])
                      else Inr (gsum @ [zs], xsum @ [[]])))
          acc
      else Inr acc)"

text \<open>\<^verbatim>\<open>math.Pow(beta, float64(k))\<close> for the whole exponent \<open>k\<close>.\<close>

definition math_Pow :: "real \<Rightarrow> int \<Rightarrow> real" where
  "math_Pow b k = (if 0 \<le> k then b ^ nat k else 1 / b ^ nat (- k))"

text \<open>The update rule for parameter \<open>j\<close> with batch gradient \<open>gij\<close>: the step \<open>dx\<close> and
  the two accumulator slices of the response. Where Go's \<^verbatim>\<open>math.Sqrt\<close> of a negative
  number is NaN, \<open>sqrt\<close> here is the odd extension of the real square root.\<close>

definition update_rule ::
  "Options \<Rightarrow> int \<Rightarrow> real \<Rightarrow> int \<Rightarrow> real list \<Rightarrow> real list \<Rightarrow>
     panic + (real \<times> real list \<times> real list)" where
  "update_rule opts k gij j gsumi xsumi =
     (let meth = Method opts in
      if meth = Adam then
        (case index_get gsumi j of Inl e \<Rightarrow> Inl e | Inr gj \<Rightarrow>
         let gj' = gj * Beta1 opts + (1 - Beta1 opts) * gij in
         case index_set gsumi j gj' of Inl e \<Rightarrow> Inl e | Inr gsumi' \<Rightarrow>
         case index_get xsumi j of Inl e \<Rightarrow> Inl e | Inr xj \<Rightarrow>
         let xj' = xj * Beta2 opts + (1 - Beta2 opts) * gij * gij in
         case index_set xsumi j xj' of Inl e \<Rightarrow> Inl e | Inr xsumi' \<Rightarrow>
         let biasCorr1 = gj' * (1 - math_Pow (Beta1 opts) k);
             biasCorr2 = xj' * (1 - math_Pow (Beta2 opts) k);
             dx = - LearningRate opts * biasCorr1 / (sqrt biasCorr2 + Eps opts)
         in Inr (dx, gsumi', xsumi'))
      else if meth = Adagrad then
        (case index_get gsumi j of Inl e \<Rightarrow> Inl e | Inr gj \<Rightarrow>
         let gj' = gj + gij * gij in
         case index_set gsumi j gj' of Inl e \<Rightarrow> Inl e | Inr gsumi' \<Rightarrow>
         Inr (- LearningRate opts / (sqrt gj' + Eps opts) * gij, gsumi', xsumi))
      else if meth = Windowgrad then
        (case index_get gsumi j of Inl e \<Rightarrow> Inl e | Inr gj \<Rightarrow>
         let gj' = Ro opts * gj + (1 - Ro opts) * gij * gij in
         case index_set gsumi j gj' of Inl e \<Rightarrow> Inl e | Inr gsumi' \<Rightarrow>
         Inr (- LearningRate opts / sqrt (gj' + Eps opts) * gij, gsumi', xsumi))
      else if meth = Adadelta then
        (case index_get gsumi j of Inl e \<Rightarrow> Inl e | Inr gj \<Rightarrow>
         let gj' = Ro opts * gj + (1 - Ro opts) * gij * gij in
         case index_set gsumi j gj' of Inl e \<Rightarrow> Inl e | Inr gsumi' \<Rightarrow>
         case index_get xsumi j of Inl e \<Rightarrow> Inl e | Inr xj \<Rightarrow>
         let dx = - sqrt ((xj + Eps opts) / (gj' + Eps opts)) * gij in
         case index_set xsumi j (Ro opts * xj + (1 - Ro opts) * dx * dx) of
           Inl e \<Rightarrow> Inl e
         | Inr xsumi' \<Rightarrow> Inr (dx, gsumi', xsumi'))
      else if meth = Netsterov then
        (case index_get gsumi j of Inl e \<Rightarrow> Inl e | Inr dx0 \<Rightarrow>
         let gj' = dx0 * Momentum opts + LearningRate opts * gij in
         case index_set gsumi j gj' of Inl e \<Rightarrow> Inl e | Inr gsumi' \<Rightarrow>
         Inr (Momentum opts * dx0 - (1 + Momentum opts) * gj', gsumi', xsumi))
      else if Momentum opts > 0 then
        (case index_get gsumi j of Inl e \<Rightarrow> Inl e | Inr gj \<Rightarrow>
         let dx = Momentum opts * gj - LearningRate opts * gij in
         case index_set gsumi j dx of Inl e \<Rightarrow> Inl e | Inr gsumi' \<Rightarrow>
         Inr (dx, gsumi', xsumi))
      else Inr (- LearningRate opts * gij, gsumi, xsumi))"

text \<open>The body of the loop over the parameters \<open>j\<close> of response \<open>i\<close>, whose slices
  \<open>p\<close> and \<open>g\<close> are the value and gradient arrays of the volume at \<open>r\<close>. The state is
  the store, the two accumulator lists and the two decay losses.\<close>

definition update_param ::
  "Options \<Rightarrow> int \<Rightarrow> nat \<Rightarrow> real \<Rightarrow> real \<Rightarrow> int \<Rightarrow> int \<Rightarrow>
     world \<times> real list list \<times> real list list \<times> real \<times> real \<Rightarrow>
     panic + (world \<times> real list list \<times> real list list \<times> real \<times> real)" where
  "update_param opts k r l1Decay l2Decay i j st =
     (case st of (h, gsum, xsum, l1DecayLoss, l2DecayLoss) \<Rightarrow>
      case Volume_GetByIndex (vols h r) j of Inl e \<Rightarrow> Inl e | Inr pj \<Rightarrow>
      let l2DecayLoss' = l2DecayLoss + l2Decay * pj * pj / 2;
          l1DecayLoss' = l1DecayLoss + l1Decay * \<bar>pj\<bar>;
          l2Grad = l2Decay * pj;
          l1Grad = (if pj \<le> 0 then l1Decay * (- 1) else l1Decay)
      in
      case Volume_GetGradByIndex (vols h r) j of Inl e \<Rightarrow> Inl e | Inr gj \<Rightarrow>
      let gij = (l2Grad + l1Grad + gj) / real_of_int (BatchSize opts) in
      case index_get gsum i of Inl e \<Rightarrow> Inl e | Inr gsumi \<Rightarrow>
      case index_get xsum i of Inl e \<Rightarrow> Inl e | Inr xsumi \<Rightarrow>
      case update_rule opts k gij j gsumi xsumi of Inl e \<Rightarrow> Inl e | Inr (dx, gsumi', xsumi') \<Rightarrow>
      case vol_update h (Some r) (\<lambda>v. Volume_SetByIndex v j (pj + dx)) of
        Inl e \<Rightarrow> Inl e
      | Inr h' \<Rightarrow>
      case vol_update h' (Some r) (\<lambda>v. Volume_SetGradByIndex v j 0) of
        Inl e \<Rightarrow> Inl e
      | Inr h'' \<Rightarrow>
          Inr (h'', gsum[nat i := gsumi'], xsum[nat i := xsumi'], l1DecayLoss', l2DecayLoss'))"

definition update_all ::
  "Options \<Rightarrow> int \<Rightarrow> LayerResponse list \<Rightarrow>
     world \<times> real list list \<times> real list list \<times> real \<times> real \<Rightarrow>
     panic + (world \<times> real list list \<times> real list list \<times> real \<times> real)" where
  "update_all opts k pgList st0 =
     for_each [0..int (length pgList) - 1]
       (\<lambda>i st.
          case index_get pgList i of
            Inl e \<Rightarrow> Inl e
          | Inr pg \<Rightarrow>
              (let l1Decay = L1Decay opts * L1DecayMul pg;
                   l2Decay = L2Decay opts * L2DecayMul pg;
                   len = int (length (w (vols (fst st) (lr_vol pg))))
               in for_each [0..len - 1] (update_param opts k (lr_vol pg) l1Decay l2Decay i) st))
       st0"

record TrainingResults =
  L1DecayLoss :: real
  L2DecayLoss :: real
  CostLost :: real
  TotalLoss :: real

text \<open>Train. The two durations of the result are wall-clock measurements and are left
  out. \<open>k % BatchSize = 0\<close> panics for a zero batch size; for a non-zero one it holds
  exactly when the batch size divides \<open>k\<close>, whatever the sign convention of the
  remainder.\<close>

definition trainer_Train ::
  "trainer \<Rightarrow> world \<Rightarrow> nat option \<Rightarrow> LossFunc \<Rightarrow> panic + (trainer \<times> world \<times> TrainingResults)" where
  "trainer_Train t h0 vol lossFunc =
     (case network_Forward (t_net t) h0 vol True of
        Inl e \<Rightarrow> Inl e
      | Inr (net, h1, out) \<Rightarrow>
      case lossFunc net h1 of
        Inl e \<Rightarrow> Inl e
      | Inr (costLoss, h2) \<Rightarrow>
      let k = int64 (t_k t + 1); opts = t_opts t in
      if BatchSize opts = 0 then Inl DivideByZero
      else if k mod BatchSize opts = 0 then
        (case network_GetResponse net of
           Inl e \<Rightarrow> Inl e
         | Inr pgList \<Rightarrow>
         case init_accumulators opts h2 pgList (t_gsum t, t_xsum t) of
           Inl e \<Rightarrow> Inl e
         | Inr (gsum, xsum) \<Rightarrow>
         case update_all opts k pgList (h2, gsum, xsum, 0, 0) of
           Inl e \<Rightarrow> Inl e
         | Inr (h3, gsum', xsum', l1DecayLoss, l2DecayLoss) \<Rightarrow>
             Inr (t\<lparr>t_net := net, t_k := k, t_gsum := gsum', t_xsum := xsum'\<rparr>, h3,
                  \<lparr>L1DecayLoss = l1DecayLoss, L2DecayLoss = l2DecayLoss, CostLost = costLoss,
                   TotalLoss = costLoss + l1DecayLoss + l2DecayLoss\<rparr>))
      else
        Inr (t\<lparr>t_net := net, t_k := k\<rparr>, h2,
             \<lparr>L1DecayLoss = 0, L2DecayLoss = 0, CostLost = costLoss,
              TotalLoss = costLoss + 0 + 0\<rparr>))"

section \<open>Concrete stores, layers and networks used in the statements\<close>

text \<open>The values of the tensor a Forward returns, with its address.\<close>

definition Forward_values ::
  "panic + (network \<times> world \<times> nat option) \<Rightarrow> panic + (nat option \<times> real list)" where
  "Forward_values r =
     (case r of Inl e \<Rightarrow> Inl e | Inr (n, h, out) \<Rightarrow> vol_read h out (\<lambda>v. Inr (out, w v)))"


text \<open>A store holding one 1x1x1 input tensor with the value -1 at address 0.\<close>

definition ex_minus_one :: world where
  "ex_minus_one =
     \<lparr>vols = (\<lambda>_. \<lparr>dimv = NewDimensions 1 1 1, w = [- 1], dw = [0]\<rparr>), top = 1,
      rnd = (\<lambda>_. 0), rpos = 0\<rparr>"

text \<open>Three definitions: an input layer, a ReLU layer and a dropout layer with
  probability one half, each with output dimensions 1x1x1; none is a loss layer.\<close>

definition ex_defs :: "LayerDef list" where
  "ex_defs =
     [\<lparr>def_Type = Input, def_Input = NewDimensions 1 1 1, def_Output = NewDimensions 1 1 1,
       def_Activation = [], def_Dropout = None, def_Maxout = None, def_LayerConfig = NilConfig\<rparr>,
      \<lparr>def_Type = ReLU, def_Input = NewDimensions 0 0 0, def_Output = NewDimensions 1 1 1,
       def_Activation = [], def_Dropout = None, def_Maxout = None, def_LayerConfig = NilConfig\<rparr>,
      \<lparr>def_Type = Dropout, def_Input = NewDimensions 0 0 0, def_Output = NewDimensions 1 1 1,
       def_Activation = [], def_Dropout = None, def_Maxout = None,
       def_LayerConfig = DropoutPtr \<lparr>DropoutProbability = 1 / 2\<rparr>\<rparr>]"

definition ex_net :: network where
  "ex_net =
     \<lparr>layers =
        [InputL \<lparr>in_output = NewDimensions 1 1 1, in_inVol = None, in_outVol = None\<rparr>,
         ReluL \<lparr>rl_output = NewDimensions 1 1 1, rl_inVol = None, rl_outVol = None\<rparr>,
         DropoutL \<lparr>do_config = \<lparr>DropoutProbability = 1 / 2\<rparr>, do_input = NewDimensions 1 1 1,
                   do_output = NewDimensions 1 1 1, do_dropped = [False], do_inVol = None,
                   do_outVol = None\<rparr>]\<rparr>"



text \<open>A convolution layer is built from the definition and the store, Forward is run
  on the tensor at \<open>vol\<close>, the output gradient at linear index \<open>i\<close> is set to 1 and
  Backward is run. The result is Forward's output values with Backward's outcome:
  the input gradient and the gradient of filter 0, or Backward's panic.\<close>

definition conv_round_trip ::
  "world \<Rightarrow> LayerDef \<Rightarrow> nat option \<Rightarrow> int \<Rightarrow>
     panic + (real list \<times> (panic + real list \<times> real list))" where
  "conv_round_trip h def vol i =
     (case NewConvLayer h def of
        Inl e \<Rightarrow> Inl e
      | Inr (l, h1) \<Rightarrow>
     (case convLayer_Forward l h1 vol True of
        Inl e \<Rightarrow> Inl e
      | Inr (l', h2, out) \<Rightarrow>
     (case vol_read h2 out (\<lambda>a. Inr (w a)) of
        Inl e \<Rightarrow> Inl e
      | Inr values \<Rightarrow>
     (case vol_update h2 out (\<lambda>v. Volume_SetGradByIndex v i 1) of
        Inl e \<Rightarrow> Inl e
      | Inr h3 \<Rightarrow>
     (case index_get (cvl_filters l') 0 of
        Inl e \<Rightarrow> Inl e
      | Inr f \<Rightarrow>
          Inr (values,
               case convLayer_Backward l' h3 of
                 Inl e \<Rightarrow> Inl e
               | Inr h4 \<Rightarrow> vol_read h4 vol (\<lambda>v. vol_read h4 f (\<lambda>fv. Inr (dw v, dw fv)))))))))"

text \<open>One 1x1 filter, stride 1, padding 1, over an input of the given dimensions and
  depth 1; every draw of the random source is 1, so the filter weight is 1.\<close>

definition ex_conv_def :: "Dimensions \<Rightarrow> LayerDef" where
  "ex_conv_def inp =
     \<lparr>def_Type = Conv, def_Input = inp, def_Output = NewDimensions 1 1 1,
      def_Activation = [], def_Dropout = None, def_Maxout = None,
      def_LayerConfig =
        ConvPtr \<lparr>cv_FilterCount = 1, cv_Sx = 1, cv_Sy = 0, cv_Stride = 1, cv_Padding = 1,
                 cv_L1DecayMult = 0, cv_L2DecayMult = 1, cv_PreferredBias = 0\<rparr>\<rparr>"

definition ex_tall :: world where
  "ex_tall =
     \<lparr>vols = (\<lambda>_. \<lparr>dimv = NewDimensions 1 2 1, w = [2, 3], dw = [0, 0]\<rparr>), top = 1,
      rnd = (\<lambda>_. 1), rpos = 0\<rparr>"

definition ex_wide :: world where
  "ex_wide =
     \<lparr>vols = (\<lambda>_. \<lparr>dimv = NewDimensions 3 2 1, w = [1, 2, 3, 4, 5, 6],
                    dw = [0, 0, 0, 0, 0, 0]\<rparr>),
      top = 1, rnd = (\<lambda>_. 1), rpos = 0\<rparr>"

text \<open>The pool layer of the example: kernel 2x2, the default stride 2, padding 0, over
  a 2x2x1 input holding 1, 5, 2, 3.\<close>

definition ex_pool_def :: LayerDef where
  "ex_pool_def =
     \<lparr>def_Type = Pool, def_Input = NewDimensions 2 2 1, def_Output = NewDimensions 1 1 1,
      def_Activation = [], def_Dropout = None, def_Maxout = None,
      def_LayerConfig = PoolPtr \<lparr>pl_Sx = 2, pl_Sy = 2, pl_Stride = 2, pl_Padding = 0\<rparr>\<rparr>"

definition ex_window :: world where
  "ex_window =
     \<lparr>vols = (\<lambda>_. \<lparr>dimv = NewDimensions 2 2 1, w = [1, 5, 2, 3], dw = [0, 0, 0, 0]\<rparr>),
      top = 1, rnd = (\<lambda>_. 0), rpos = 0\<rparr>"

text \<open>A pool layer is built, Forward is run, the output gradient at linear index \<open>i\<close>
  is set to \<open>g\<close> and Backward is run. The result is Forward's output values and the
  recorded switches with Backward's outcome: the input gradient, or its panic.\<close>

definition pool_round_trip ::
  "world \<Rightarrow> LayerDef \<Rightarrow> nat option \<Rightarrow> int \<Rightarrow> real \<Rightarrow>
     panic + (real list \<times> int list \<times> int list \<times> (panic + real list))" where
  "pool_round_trip h def vol i g =
     (case NewPoolLayer def of
        Inl e \<Rightarrow> Inl e
      | Inr l \<Rightarrow>
     (case poolLayer_Forward l h vol True of
        Inl e \<Rightarrow> Inl e
      | Inr (l', h1, out) \<Rightarrow>
     (case vol_read h1 out (\<lambda>a. Inr (w a)) of
        Inl e \<Rightarrow> Inl e
      | Inr values \<Rightarrow>
     (case vol_update h1 out (\<lambda>v. Volume_SetGradByIndex v i g) of
        Inl e \<Rightarrow> Inl e
      | Inr h2 \<Rightarrow>
          Inr (values, pll_switchX l', pll_switchY l',
               case poolLayer_Backward l' h2 of
                 Inl e \<Rightarrow> Inl e
               | Inr h3 \<Rightarrow> vol_read h3 vol (\<lambda>v. Inr (dw v)))))))"

text \<open>A store with an input tensor at address 0, a filter at 1 and a bias at 2, and a
  network of an input layer, a fully connected layer over them and a ReLU layer.\<close>

definition ex_params :: world where
  "ex_params =
     \<lparr>vols = (\<lambda>r. if r = 0 then \<lparr>dimv = NewDimensions 1 1 1, w = [2], dw = [0]\<rparr>
                  else if r = 1 then \<lparr>dimv = NewDimensions 1 1 1, w = [1], dw = [0]\<rparr>
                  else \<lparr>dimv = NewDimensions 1 1 1, w = [0], dw = [0]\<rparr>),
      top = 3, rnd = (\<lambda>_. 0), rpos = 0\<rparr>"

definition ex_fc_net :: network where
  "ex_fc_net =
     \<lparr>layers =
        [InputL \<lparr>in_output = NewDimensions 1 1 1, in_inVol = None, in_outVol = None\<rparr>,
         FullyConnL \<lparr>fcl_conf = \<lparr>fc_Neurons = 1, fc_L1DecayMult = 0, fc_L2DecayMult = 1,
                                 fc_PreferredBias = 0\<rparr>,
                     fcl_input = NewDimensions 1 1 1, fcl_output = NewDimensions 1 1 1,
                     fcl_inVol = None, fcl_outVol = None, fcl_filters = [Some 1],
                     fcl_biases = Some 2\<rparr>,
         ReluL \<lparr>rl_output = NewDimensions 1 1 1, rl_inVol = None, rl_outVol = None\<rparr>]\<rparr>"

text \<open>A loss function that returns 0 and leaves the network alone.\<close>

definition zero_loss :: LossFunc where
  "zero_loss = (\<lambda>net h. Inr (0, h))"

text \<open>A trainer is made for the network with the given options and Train is called
  twice; the result is the pair of accumulator lists after the first call and after
  the second.\<close>

definition accumulators_after_two ::
  "network \<Rightarrow> (Options \<Rightarrow> Options) list \<Rightarrow> world \<Rightarrow> nat option \<Rightarrow> LossFunc \<Rightarrow>
     panic + ((real list list \<times> real list list) \<times> (real list list \<times> real list list))" where
  "accumulators_after_two net opts h vol lossFunc =
     (case NewTrainer (Some net) opts of
        Inl e \<Rightarrow> Inl e
      | Inr t \<Rightarrow>
     (case trainer_Train t h vol lossFunc of
        Inl e \<Rightarrow> Inl e
      | Inr (t1, h1, r1) \<Rightarrow>
          (case trainer_Train t1 h1 vol lossFunc of
             Inl e \<Rightarrow> Inl e
           | Inr (t2, h2, r2) \<Rightarrow> Inr ((t_gsum t1, t_xsum t1), (t_gsum t2, t_xsum t2)))))"

section \<open>Evaluation and loop lemmas\<close>

lemmas eval_defs =
  int64_def index_get_def index_set_def make_slice_def NewDimensions_def Size_def
  alloc_def vol_read_def vol_update_def NewVolume_def Volume_Size_def Volume_getIndex_def
  Volume_GetByIndex_def Volume_SetByIndex_def Volume_Get_def Volume_Set_def Volume_MultByIndex_def
  Volume_GetGradByIndex_def Volume_SetGradByIndex_def Volume_AddGradByIndex_def Volume_GetGrad_def
  Volume_SetGrad_def Volume_AddGrad_def Volume_ZeroGrad_def copy_slice_def Volume_Clone_def
  Volume_CloneAndZero_def WithZeros_def WithInitialValue_def gaussian_fill_def Let_def upto_rec1

lemma for_each_weak_cong:
  "xs = ys \<Longrightarrow> s = t \<Longrightarrow> for_each xs body s = for_each ys body t"
  by simp

lemma for_each_snoc:
  "for_each (xs @ [x]) body s =
     (case for_each xs body s of Inl e \<Rightarrow> Inl e | Inr s' \<Rightarrow> body x s')"
  by (induction xs arbitrary: s) (auto split: sum.splits)

section \<open>Maxout: the first Forward of a fresh layer\<close>

text \<open>
  C10. A layer just returned by \<open>NewMaxoutLayer\<close> has a nil \<open>outVol\<close>; Forward calls
  \<open>CloneAndZero\<close> on it before anything else, so the first Forward of every freshly
  constructed maxout layer panics with a nil dereference, for every store, input
  volume and mode, instead of returning an output volume.
\<close>

theorem maxout_first_Forward_panics:
  "NewMaxoutLayer def = Inr l \<Longrightarrow> maxoutLayer_Forward l h vol training = Inl NilDereference"
  by (auto simp: NewMaxoutLayer_def maxoutLayer_Forward_def Volume_CloneAndZero_def Let_def
           split: if_splits LayerConfig.splits sum.splits)

theorem maxout_first_Forward_panics_witness:
  "NewMaxoutLayer
     \<lparr>def_Type = Maxout, def_Input = NewDimensions 1 1 4, def_Output = NewDimensions 1 1 2,
      def_Activation = [], def_Dropout = None, def_Maxout = None,
      def_LayerConfig = MaxoutPtr \<lparr>GroupSize = 2\<rparr>\<rparr>
   = Inr \<lparr>mo_conf = \<lparr>GroupSize = 2\<rparr>, mo_output = NewDimensions 1 1 2, mo_inVol = None,
          mo_outVol = None, mo_switches = [0, 0]\<rparr>
   \<and> maxoutLayer_Forward
       \<lparr>mo_conf = \<lparr>GroupSize = 2\<rparr>, mo_output = NewDimensions 1 1 2, mo_inVol = None,
        mo_outVol = None, mo_switches = [0, 0]\<rparr>
       \<lparr>vols = (\<lambda>_. \<lparr>dimv = NewDimensions 1 1 4, w = [1, 2, 3, 4], dw = [0, 0, 0, 0]\<rparr>),
        top = 1, rnd = (\<lambda>_. 0), rpos = 0\<rparr>
       (Some 0) True
     = Inl NilDereference"
proof -
  have c: "NewMaxoutLayer
     \<lparr>def_Type = Maxout, def_Input = NewDimensions 1 1 4, def_Output = NewDimensions 1 1 2,
      def_Activation = [], def_Dropout = None, def_Maxout = None,
      def_LayerConfig = MaxoutPtr \<lparr>GroupSize = 2\<rparr>\<rparr>
   = Inr \<lparr>mo_conf = \<lparr>GroupSize = 2\<rparr>, mo_output = NewDimensions 1 1 2, mo_inVol = None,
          mo_outVol = None, mo_switches = [0, 0]\<rparr>"
    by (simp add: NewMaxoutLayer_def NewDimensions_def Size_def int64_def make_slice_def
                  numeral_2_eq_2)
  show ?thesis
    using c maxout_first_Forward_panics [OF c] by simp
qed

section \<open>Network.Forward: which tensor each layer is given\<close>

text \<open>
  C1. Claimed: each layer's Forward is applied to the previous layer's output and the
  result is the last layer's output under that threading. The code gives every layer
  the caller's input tensor. On the network of an input layer, a ReLU layer and a
  dropout layer (probability one half), run in inference mode on the input -1, the
  code returns -1/2, the dropout scaling of the caller's input; the threaded pipeline
  returns 0, the scaling of the ReLU output.
\<close>

theorem network_Forward_hands_input_to_every_layer:
  "Forward_values (network_Forward ex_net ex_minus_one (Some 0) False) = Inr (Some 2, [- 1 / 2])
   \<and> Forward_values (threaded_Forward ex_net ex_minus_one (Some 0) False) = Inr (Some 2, [0])"
  by (simp add: Forward_values_def network_Forward_def threaded_Forward_def ex_net_def
        ex_minus_one_def lift_Forward_def inputLayer_Forward_def reluLayer_Forward_def
        dropoutLayer_Forward_def eval_defs
        cong: for_each_weak_cong sum.case_cong_weak option.case_cong_weak prod.case_cong_weak)

section \<open>Network.Backward: the input layer\<close>

text \<open>Whatever the layers after it, a network whose first layer is the input layer
  never returns from Backward: either the last layer is not a loss layer, or the loss
  or one of the later layers panics, or the loop reaches index 0 and the input layer's
  Backward panics.\<close>

lemma network_Backward_input_first:
  assumes "layers n = InputL l # rest"
  shows "\<exists>e. network_Backward n h index = Inl e"
proof (cases rest)
  case Nil
  with assms show ?thesis
    by (simp add: network_Backward_def network_Size_def index_get_def)
next
  case (Cons a as)
  have "[0..int (length rest) - 1] = 0 # [1..int (length rest) - 1]"
    using Cons by (simp add: upto_rec1)
  then have r: "rev [0..network_Size n - 2] = rev [1..int (length rest) - 1] @ [0]"
    using assms by (simp add: network_Size_def)
  have "\<exists>e. for_each (rev [0..network_Size n - 2])
             (\<lambda>index h. case index_get (layers n) index of
                           Inl e \<Rightarrow> Inl e
                         | Inr l \<Rightarrow> Layer_Backward l h) h1 = Inl e" for h1
    unfolding r for_each_snoc using assms
    by (auto simp: index_get_def inputLayer_Backward_def split: sum.splits)
  then show ?thesis
    by (auto simp: network_Backward_def Let_def split: sum.splits option.splits prod.splits)
      (metis Inl_Inr_False)
qed


section \<open>Convolution: the input index used by Backward\<close>

text \<open>
  C3. Claimed: Backward uses the same linear input index as Forward, also for
  non-square inputs. Forward reads the input at \<open>((vsx * oy) + ox) * depth + fz\<close>,
  Backward uses \<open>((vsy * oy) + ox) * depth + fz\<close>. With one 1x1 filter of weight 1,
  stride 1 and padding 1: on an input one wide and two tall holding 2, 3, Forward
  returns (reading indices 0 and 1) and Backward panics on index 2; on an input three
  wide and two tall holding 1..6, with output gradient 1 at the output position whose
  value 4 Forward read at input index 3, Backward adds the filter value to the input
  gradient at index 2 and adds the input value 3 of index 2 to the filter gradient.
\<close>

theorem convLayer_Backward_uses_height_as_row_length:
  "conv_round_trip ex_tall (ex_conv_def (NewDimensions 1 2 1)) (Some 0) 0
     = Inr ([2, 0, 0, 3, 0, 0, 0, 0, 0, 0, 0, 0], Inl IndexOutOfRange)
   \<and> conv_round_trip ex_wide (ex_conv_def (NewDimensions 3 2 1)) (Some 0) 5
     = Inr ([1, 2, 3, 0, 0, 4, 5, 6, 0, 0, 0, 0, 0, 0, 0, 0, 0, 0, 0, 0],
            Inr ([0, 0, 1, 0, 0, 0], [3]))"
  by (simp add: conv_round_trip_def NewConvLayer_def new_filters_def ex_conv_def_def ex_tall_def
        ex_wide_def LayerType_defs out_extent_def convLayer_Forward_def convLayer_Backward_def
        conv_window_sum_def conv_window_grad_def eval_defs eval_nat_numeral
        cong: for_each_weak_cong sum.case_cong_weak option.case_cong_weak prod.case_cong_weak)

section \<open>Pooling: the 2x2 window\<close>

text \<open>
  C4. Claimed: a 2x2 pool over the window 1, 5, 2, 3 (padding 0) outputs 5, records
  the position of the 5, and Backward with output gradient 1 yields the input gradient
  0, 1, 0, 0. The layer made by \<open>NewPoolLayerConfig 2\<close> (stride 2) over the 2x2 input
  advances \<open>x\<close> and \<open>y\<close> by the stride before it scans its only window, which
  therefore lies outside the input: Forward outputs the initial value -100000 and
  records the switch (-1, -1), and Backward panics on the index computed from it.
\<close>

theorem poolLayer_first_window_starts_one_stride_in:
  "NewPoolLayerConfig 2 = Inr (def_LayerConfig ex_pool_def)
   \<and> pool_round_trip ex_window ex_pool_def (Some 0) 0 1
     = Inr ([- 100000], [- 1], [- 1], Inl IndexOutOfRange)"
  by (simp add: NewPoolLayerConfig_def pool_round_trip_def NewPoolLayer_def ex_pool_def_def
        ex_window_def LayerType_defs out_extent_def poolLayer_Forward_def poolLayer_Backward_def
        pool_window_def eval_defs
        cong: for_each_weak_cong sum.case_cong_weak option.case_cong_weak prod.case_cong_weak)

section \<open>The trainer's accumulators\<close>

text \<open>
  C5. Claimed: the accumulator lists are allocated once, on the first update pass,
  and keep one entry per parameter response for every method and momentum. With the
  default options (SGD, momentum 0.9) the guard holds on every update pass: for the
  network with two parameter responses the lists have two entries after the first
  call of Train and four after the second. With Adam and momentum 0 the guard never
  holds: nothing is allocated and the first update pass panics on the empty list.
\<close>

theorem trainer_accumulators_grow_or_are_missing:
  "network_GetResponse ex_fc_net
     = Inr [\<lparr>lr_vol = 1, L1DecayMul = 0, L2DecayMul = 1\<rparr>,
            \<lparr>lr_vol = 2, L1DecayMul = 0, L2DecayMul = 0\<rparr>]
   \<and> accumulators_after_two ex_fc_net [] ex_params (Some 0) zero_loss
     = Inr (([[0], [0]], [[], []]), ([[0], [0], [0], [0]], [[], [], [], []]))
   \<and> accumulators_after_two ex_fc_net [WithMethod Adam, WithMomentum 0] ex_params (Some 0)
       zero_loss
     = Inl IndexOutOfRange"
  by (simp add: accumulators_after_two_def NewTrainer_def trainer_Train_def zero_loss_def
        baseOpts_def WithMomentum_def WithMethod_def network_Size_def
        network_Forward_def ex_fc_net_def ex_params_def lift_Forward_def inputLayer_Forward_def
        fullyConnLayer_Forward_def reluLayer_Forward_def
        network_GetResponse_def fullyConnLayer_GetResponse_def filter_responses_def
        init_accumulators_def update_all_def update_param_def update_rule_def math_Pow_def
        TrainingMethod_defs eval_defs
        cong: for_each_weak_cong sum.case_cong_weak option.case_cong_weak prod.case_cong_weak)

section \<open>NewNetwork: what is validated\<close>

text \<open>A list of three definitions that starts with the input layer and holds no
  SoftMax, SVM or Regression layer is accepted: NewNetwork returns a network.\<close>

theorem NewNetwork_accepts_no_loss_layer:
  "map def_Type ex_defs = [''input'', ''relu'', ''dropout'']
   \<and> NewNetwork ex_minus_one ex_defs = Inr (Inr (ex_net, ex_minus_one))"
  by (simp add: NewNetwork_def ActivateLayers_def implicit_fc_def update_bias_def
        activation_defs_def dropout_defs_def inherit_inputs_def new_layer_def LayerType_defs
        lift_New_def lift_NewW_def NewInputLayer_def NewReluLayer_def NewDropoutLayer_def
        ex_defs_def ex_net_def ex_minus_one_def upt_rec eval_defs
        cong: for_each_weak_cong sum.case_cong_weak option.case_cong_weak prod.case_cong_weak)

text \<open>
  C6, as amended. NewNetwork returns an error, not a network, when fewer than three
  definitions are given, and when three or more are given and the first is not of the
  input type. The presence of a loss-capable layer is not checked at construction.
\<close>

theorem NewNetwork_validates_count_and_first:
  "(length defs \<le> 2 \<longrightarrow>
      NewNetwork h defs = Inr (Inl ''at least one input and one loss layer are required''))
   \<and> (2 < length defs \<and> def_Type (defs ! 0) \<noteq> Input \<longrightarrow>
      NewNetwork h defs
        = Inr (Inl ''first layer must be the input layer, to declare size of inputs''))"
  by (simp add: NewNetwork_def)

theorem NewNetwork_validates_count_and_first_witness:
  "NewNetwork ex_minus_one (take 2 ex_defs)
     = Inr (Inl ''at least one input and one loss layer are required'')
   \<and> NewNetwork ex_minus_one (rev ex_defs)
     = Inr (Inl ''first layer must be the input layer, to declare size of inputs'')"
proof -
  have a: "length (take 2 ex_defs) \<le> 2" by simp
  have b: "2 < length (rev ex_defs) \<and> def_Type (rev ex_defs ! 0) \<noteq> Input"
    by (simp add: ex_defs_def LayerType_defs)
  show ?thesis
    using NewNetwork_validates_count_and_first [of "take 2 ex_defs" ex_minus_one] a
      NewNetwork_validates_count_and_first [of "rev ex_defs" ex_minus_one] b
    by blast
qed

end
